theory Spec2Isabelle
  imports Complex_Main
begin

section \<open>The value model (rcc_json_object.h)\<close>

text \<open>
  A \<^verbatim>\<open>json_value\<close> is a tag and a union; the datatype keeps one constructor per tag, with
  the union field that the tag selects. A \<^verbatim>\<open>json_member*\<close> is the head of a singly linked
  list: the list of the members reached through \<^verbatim>\<open>Next\<close>, the null pointer being \<open>[]\<close>.
  An array is \<^verbatim>\<open>Head\<close> and \<^verbatim>\<open>Size\<close>: the list of its \<^verbatim>\<open>Size\<close> elements. The type
  \<open>'n\<close> stands for \<^verbatim>\<open>float64_t\<close>.

  The members are allocated with \<^verbatim>\<open>malloc\<close>, so the constructor of \<^verbatim>\<open>json_member\<close> does not
  run and no function of the source writes \<^verbatim>\<open>Next\<close> of a new member. The model reads this
  field of a fresh member as the null pointer, which is what every traversal of the source
  relies on.
\<close>

datatype 'n json_value =
    JSON_TYPE_INVALID
  | JSON_TYPE_MEMBER "'n json_member list"
  | JSON_TYPE_ARRAY "'n json_value list"
  | JSON_TYPE_STRING string
  | JSON_TYPE_NUMBER 'n
  | JSON_TYPE_BOOLEAN bool
  | JSON_TYPE_NULL
and 'n json_member = Member (Key: string) (Value: "'n json_value")

record 'n json_object =
  First :: "'n json_member list"
  IsValid :: bool

text \<open>The constructor \<^verbatim>\<open>json_object()\<close>: no member, valid.\<close>

definition new_json_object :: "'n json_object" where
  "new_json_object = \<lparr>First = [], IsValid = True\<rparr>"

text \<open>
  What the C++ leaves undefined is a value of the model: a read through a null pointer, a read
  of the union field \<^verbatim>\<open>Child\<close> of a value whose tag is not \<^verbatim>\<open>JSON_TYPE_MEMBER\<close>, a read of the
  input buffer or of an array outside its bytes, a write past the 64 bytes of a token, a read
  of a pointer that no statement has written, a conversion to \<^verbatim>\<open>int32_t\<close> of a number outside
  its range.
\<close>

datatype fault =
  NullDereference | WrongUnionMember | OutOfBounds | TokenOverflow | IndeterminateRead
  | CastOverflow

subsection \<open>Lookup\<close>

text \<open>
  \<^verbatim>\<open>getJsonValue(json_member*, Key)\<close>: the loop over the siblings, with the recursive call on
  \<^verbatim>\<open>Value.Child\<close> of a member whose key differs.
\<close>

fun getJsonValue :: "'n json_member list \<Rightarrow> string \<Rightarrow> 'n json_value" where
  "getJsonValue [] k = JSON_TYPE_INVALID"
| "getJsonValue (Member key (JSON_TYPE_MEMBER Child) # Next) k =
     (if key = k then JSON_TYPE_MEMBER Child
      else (let Result = getJsonValue Child k
            in if Result \<noteq> JSON_TYPE_INVALID then Result else getJsonValue Next k))"
| "getJsonValue (Member key v # Next) k = (if key = k then v else getJsonValue Next k)"

text \<open>\<^verbatim>\<open>getJsonValue(json_object, Key)\<close>.\<close>

definition getJsonValue_object :: "'n json_object \<Rightarrow> string \<Rightarrow> 'n json_value" where
  "getJsonValue_object JsonObject k =
     (if First JsonObject = [] then JSON_TYPE_INVALID else getJsonValue (First JsonObject) k)"

subsection \<open>Arrays\<close>

definition getJsonValueArraySize :: "'n json_value \<Rightarrow> int" where
  "getJsonValueArraySize JsonValue =
     (case JsonValue of JSON_TYPE_ARRAY Head \<Rightarrow> int (length Head) | _ \<Rightarrow> - 1)"

text \<open>
  \<^verbatim>\<open>getJsonValueArrayMember\<close> returns a \<^verbatim>\<open>json_member\<close> by value: the three fields of the
  struct. \<^verbatim>\<open>MemberKey\<close> is the pointer \<^verbatim>\<open>Key\<close> (\<open>None\<close> when null), \<^verbatim>\<open>MemberNext\<close> the list
  that \<^verbatim>\<open>Next\<close> points to.
\<close>

record 'n member_struct =
  MemberKey :: "string option"
  MemberValue :: "'n json_value"
  MemberNext :: "'n json_member list"

text \<open>The constructor \<^verbatim>\<open>json_member()\<close>.\<close>

definition new_json_member :: "'n member_struct" where
  "new_json_member = \<lparr>MemberKey = None, MemberValue = JSON_TYPE_INVALID, MemberNext = []\<rparr>"

text \<open>
  \<^verbatim>\<open>Result = *(JsonValue.Array.Head[Index].Child)\<close>: the element is read at \<^verbatim>\<open>Index\<close>, its union
  is read as the pointer \<^verbatim>\<open>Child\<close> whatever the tag of the element is, and the pointer is
  dereferenced.
\<close>

definition getJsonValueArrayMember :: "'n json_value \<Rightarrow> int \<Rightarrow> fault + 'n member_struct" where
  "getJsonValueArrayMember JsonValue Index =
     (case JsonValue of
        JSON_TYPE_ARRAY Head \<Rightarrow>
          (if 0 \<le> Index \<and> Index < int (length Head) then
             (case Head ! nat Index of
                JSON_TYPE_MEMBER [] \<Rightarrow> Inl NullDereference
              | JSON_TYPE_MEMBER (m # Next) \<Rightarrow>
                  Inr \<lparr>MemberKey = Some (Key m), MemberValue = Value m, MemberNext = Next\<rparr>
              | _ \<Rightarrow> Inl WrongUnionMember)
           else Inl OutOfBounds)
      | _ \<Rightarrow> Inr new_json_member)"

subsection \<open>Insertion\<close>

text \<open>
  The end of every \<^verbatim>\<open>addJsonMember\<close>: the new member becomes \<^verbatim>\<open>First\<close> of an empty object,
  and is linked after the last member otherwise. A list of the model ends where \<^verbatim>\<open>Next\<close> reads
  as the null pointer. The source never writes \<^verbatim>\<open>Next\<close> of the new member, which \<^verbatim>\<open>malloc\<close> has
  just returned: \<open>linkAtTail\<close> and \<open>appendMember\<close> describe the run on memory whose fresh blocks
  read as zero, where the new member is the end of the list. \<open>appendMemberOn\<close> below takes the
  memory as a parameter.
\<close>

fun linkAtTail :: "'n json_member list \<Rightarrow> 'n json_member \<Rightarrow> 'n json_member list" where
  "linkAtTail [] NewMember = [NewMember]"
| "linkAtTail (CurrentMember # Next) NewMember = CurrentMember # linkAtTail Next NewMember"

definition appendMember :: "'n json_object \<Rightarrow> 'n json_member \<Rightarrow> 'n json_object" where
  "appendMember JsonObject NewMember =
     JsonObject\<lparr>First := linkAtTail (First JsonObject) NewMember\<rparr>"

text \<open>
  The parameter \<^verbatim>\<open>Key\<close> is a \<^verbatim>\<open>const char*\<close>: \<open>None\<close> is the null pointer, \<open>Some k\<close> a pointer
  to the characters \<open>k\<close>. The guard \<^verbatim>\<open>Key == '\0'\<close> of the source compares the pointer itself
  with the null pointer constant; it does not read the first character. So the guard is
  true of \<open>None\<close> only, and a pointer to the empty string, \<open>Some []\<close>, passes it.
\<close>

definition addJsonMember_String ::
  "'n json_object \<Rightarrow> string option \<Rightarrow> string \<Rightarrow> 'n json_object" where
  "addJsonMember_String JsonObject Key' String' =
     (case Key' of
        None \<Rightarrow> JsonObject
      | Some k \<Rightarrow> appendMember JsonObject (Member k (JSON_TYPE_STRING String')))"

definition addJsonMember_Number ::
  "'n json_object \<Rightarrow> string option \<Rightarrow> 'n \<Rightarrow> 'n json_object" where
  "addJsonMember_Number JsonObject Key' Number =
     (case Key' of
        None \<Rightarrow> JsonObject
      | Some k \<Rightarrow> appendMember JsonObject (Member k (JSON_TYPE_NUMBER Number)))"

definition addJsonMember_Boolean ::
  "'n json_object \<Rightarrow> string option \<Rightarrow> bool \<Rightarrow> 'n json_object" where
  "addJsonMember_Boolean JsonObject Key' Boolean =
     (case Key' of
        None \<Rightarrow> JsonObject
      | Some k \<Rightarrow> appendMember JsonObject (Member k (JSON_TYPE_BOOLEAN Boolean)))"

text \<open>\<^verbatim>\<open>addJsonMember(JsonObject, Key, json_member* Child)\<close>: a null \<^verbatim>\<open>Child\<close> is refused too.\<close>

definition addJsonMember_Child ::
  "'n json_object \<Rightarrow> string option \<Rightarrow> 'n json_member list \<Rightarrow> 'n json_object" where
  "addJsonMember_Child JsonObject Key' Child =
     (if Child = [] then JsonObject
      else (case Key' of
              None \<Rightarrow> JsonObject
            | Some k \<Rightarrow> appendMember JsonObject (Member k (JSON_TYPE_MEMBER Child))))"

text \<open>\<^verbatim>\<open>addJsonMember(JsonObject, Key, json_object* Child)\<close>.\<close>

definition addJsonMember_Object ::
  "'n json_object \<Rightarrow> string option \<Rightarrow> 'n json_object \<Rightarrow> 'n json_object" where
  "addJsonMember_Object JsonObject Key' Child =
     (if First Child = [] \<or> Key' = None then JsonObject
      else addJsonMember_Child JsonObject Key' (First Child))"

text \<open>
  \<^verbatim>\<open>addJsonMember(JsonObject, Key, json_value* ArrayHead, size_t ArraySize)\<close>. \<open>ArrayHead\<close> is
  \<open>None\<close> for the null pointer and the elements it points to otherwise; the new member
  holds a copy of the first \<^verbatim>\<open>ArraySize\<close> of them.
\<close>

definition addJsonMember_Array ::
  "'n json_object \<Rightarrow> string option \<Rightarrow> 'n json_value list option \<Rightarrow> nat \<Rightarrow> 'n json_object" where
  "addJsonMember_Array JsonObject Key' ArrayHead ArraySize =
     (case ArrayHead of
        None \<Rightarrow> JsonObject
      | Some Head \<Rightarrow>
          (case Key' of
             None \<Rightarrow> JsonObject
           | Some k \<Rightarrow> appendMember JsonObject (Member k (JSON_TYPE_ARRAY (take ArraySize Head)))))"

definition addJsonMemberNull :: "'n json_object \<Rightarrow> string option \<Rightarrow> 'n json_object" where
  "addJsonMemberNull JsonObject Key' =
     (case Key' of
        None \<Rightarrow> JsonObject
      | Some k \<Rightarrow> appendMember JsonObject (Member k JSON_TYPE_NULL))"

subsection \<open>Insertion and the memory that \<^verbatim>\<open>malloc\<close> returns\<close>

text \<open>
  No statement of the source writes the field \<^verbatim>\<open>Next\<close> of a member between the \<^verbatim>\<open>malloc\<close> that
  returns the member and the first read of the field: \<^verbatim>\<open>setJsonMemberValue\<close> writes \<^verbatim>\<open>Key\<close> and
  \<^verbatim>\<open>Value\<close>, the other writes to \<^verbatim>\<open>Next\<close> link a successor or unlink a member, and
  \<^verbatim>\<open>setJsonMemberSibling\<close> is never called. So the last member of every list that the insert
  operations build holds a \<^verbatim>\<open>Next\<close> that was never written, and what a read of it yields is up
  to the memory.
  \<open>ZeroMemory\<close> is the memory whose fresh blocks read as zero: the field reads as the null
  pointer. On \<open>OtherMemory\<close> the read is the fault \<open>IndeterminateRead\<close>.

  \<^verbatim>\<open>addJsonMember\<close> reads the field in \<^verbatim>\<open>while (CurrentMember->Next != nullptr)\<close>, which it
  reaches when \<^verbatim>\<open>First\<close> is not null.
\<close>

datatype memory = ZeroMemory | OtherMemory

definition appendMemberOn ::
  "memory \<Rightarrow> 'n json_object \<Rightarrow> 'n json_member \<Rightarrow> fault + 'n json_object" where
  "appendMemberOn mem JsonObject NewMember =
     (if First JsonObject = [] then Inr (JsonObject\<lparr>First := [NewMember]\<rparr>)
      else if mem = ZeroMemory
        then Inr (JsonObject\<lparr>First := linkAtTail (First JsonObject) NewMember\<rparr>)
      else Inl IndeterminateRead)"

definition addJsonMember_StringOn ::
  "memory \<Rightarrow> 'n json_object \<Rightarrow> string option \<Rightarrow> string \<Rightarrow> fault + 'n json_object" where
  "addJsonMember_StringOn mem JsonObject Key' String' =
     (case Key' of
        None \<Rightarrow> Inr JsonObject
      | Some k \<Rightarrow> appendMemberOn mem JsonObject (Member k (JSON_TYPE_STRING String')))"

definition addJsonMember_NumberOn ::
  "memory \<Rightarrow> 'n json_object \<Rightarrow> string option \<Rightarrow> 'n \<Rightarrow> fault + 'n json_object" where
  "addJsonMember_NumberOn mem JsonObject Key' Number =
     (case Key' of
        None \<Rightarrow> Inr JsonObject
      | Some k \<Rightarrow> appendMemberOn mem JsonObject (Member k (JSON_TYPE_NUMBER Number)))"

definition addJsonMember_BooleanOn ::
  "memory \<Rightarrow> 'n json_object \<Rightarrow> string option \<Rightarrow> bool \<Rightarrow> fault + 'n json_object" where
  "addJsonMember_BooleanOn mem JsonObject Key' Boolean =
     (case Key' of
        None \<Rightarrow> Inr JsonObject
      | Some k \<Rightarrow> appendMemberOn mem JsonObject (Member k (JSON_TYPE_BOOLEAN Boolean)))"

definition addJsonMember_ChildOn ::
  "memory \<Rightarrow> 'n json_object \<Rightarrow> string option \<Rightarrow> 'n json_member list
     \<Rightarrow> fault + 'n json_object" where
  "addJsonMember_ChildOn mem JsonObject Key' Child =
     (if Child = [] then Inr JsonObject
      else (case Key' of
              None \<Rightarrow> Inr JsonObject
            | Some k \<Rightarrow> appendMemberOn mem JsonObject (Member k (JSON_TYPE_MEMBER Child))))"

definition addJsonMember_ObjectOn ::
  "memory \<Rightarrow> 'n json_object \<Rightarrow> string option \<Rightarrow> 'n json_object \<Rightarrow> fault + 'n json_object" where
  "addJsonMember_ObjectOn mem JsonObject Key' Child =
     (if First Child = [] \<or> Key' = None then Inr JsonObject
      else addJsonMember_ChildOn mem JsonObject Key' (First Child))"

definition addJsonMember_ArrayOn ::
  "memory \<Rightarrow> 'n json_object \<Rightarrow> string option \<Rightarrow> 'n json_value list option \<Rightarrow> nat
     \<Rightarrow> fault + 'n json_object" where
  "addJsonMember_ArrayOn mem JsonObject Key' ArrayHead ArraySize =
     (case ArrayHead of
        None \<Rightarrow> Inr JsonObject
      | Some Head \<Rightarrow>
          (case Key' of
             None \<Rightarrow> Inr JsonObject
           | Some k \<Rightarrow>
               appendMemberOn mem JsonObject (Member k (JSON_TYPE_ARRAY (take ArraySize Head)))))"

definition addJsonMemberNullOn ::
  "memory \<Rightarrow> 'n json_object \<Rightarrow> string option \<Rightarrow> fault + 'n json_object" where
  "addJsonMemberNullOn mem JsonObject Key' =
     (case Key' of
        None \<Rightarrow> Inr JsonObject
      | Some k \<Rightarrow> appendMemberOn mem JsonObject (Member k JSON_TYPE_NULL))"

subsection \<open>Destruction and deletion\<close>

text \<open>
  The calls of \<^verbatim>\<open>free\<close>, in the order the source makes them: the key of a member, then the
  member. The source frees nothing else.
\<close>

datatype 'n freed = FreeKey string | FreeMember "'n json_member"

text \<open>
  \<^verbatim>\<open>destroyJsonMember\<close> reads \<^verbatim>\<open>TargetMember->Next\<close> before its loop tests the pointer, so the
  null pointer is dereferenced; \<open>destroyLoop\<close> is the \<^verbatim>\<open>while\<close> loop, which walks the list
  through \<^verbatim>\<open>Next\<close> to its end.
\<close>

fun destroyJsonMember :: "'n json_member list \<Rightarrow> fault + 'n freed list"
  and destroyLoop :: "'n json_member list \<Rightarrow> fault + 'n freed list" where
  "destroyJsonMember [] = Inl NullDereference"
| "destroyJsonMember (TargetMember # NextTarget) = destroyLoop (TargetMember # NextTarget)"
| "destroyLoop [] = Inr []"
| "destroyLoop (Member key (JSON_TYPE_MEMBER Child) # NextTarget) =
     (case destroyJsonMember Child of
        Inl e \<Rightarrow> Inl e
      | Inr below \<Rightarrow>
          (case destroyLoop NextTarget of
             Inl e \<Rightarrow> Inl e
           | Inr after \<Rightarrow>
               Inr (below
                    @ [FreeKey key, FreeMember (Member key (JSON_TYPE_MEMBER Child))]
                    @ after)))"
| "destroyLoop (Member key v # NextTarget) =
     (case destroyLoop NextTarget of
        Inl e \<Rightarrow> Inl e
      | Inr after \<Rightarrow> Inr ([FreeKey key, FreeMember (Member key v)] @ after))"

text \<open>
  \<^verbatim>\<open>destroyJsonObject(json_object*)\<close>: \<open>None\<close> is the null pointer. The object that is left has
  \<^verbatim>\<open>First\<close> null.
\<close>

definition destroyJsonObject ::
  "'n json_object option \<Rightarrow> fault + ('n json_object option \<times> 'n freed list)" where
  "destroyJsonObject JsonObject =
     (case JsonObject of
        None \<Rightarrow> Inr (None, [])
      | Some obj \<Rightarrow>
          (case destroyJsonMember (First obj) of
             Inl e \<Rightarrow> Inl e
           | Inr fs \<Rightarrow> Inr (Some (obj\<lparr>First := []\<rparr>), fs)))"

text \<open>
  \<^verbatim>\<open>deleteJsonMember(json_member*, Key)\<close>. The result is \<^verbatim>\<open>Result\<close>, the list as it is linked
  when the function returns, and the calls of \<^verbatim>\<open>free\<close>. The member to delete is unlinked
  from its predecessor but keeps its own \<^verbatim>\<open>Next\<close>, and is handed to \<^verbatim>\<open>destroyJsonMember\<close>,
  which walks on through \<^verbatim>\<open>Next\<close>: the members after it are freed with it although the
  predecessor is now linked to them.
\<close>

fun deleteJsonMember ::
  "'n json_member list \<Rightarrow> string \<Rightarrow> fault + (bool \<times> 'n json_member list \<times> 'n freed list)" where
  "deleteJsonMember [] k = Inl NullDereference"
| "deleteJsonMember [TargetMember] k = Inr (False, [TargetMember], [])"
| "deleteJsonMember (TargetMember # Member key (JSON_TYPE_MEMBER Child) # Next) k =
     (if key = k then
        (case destroyJsonMember (Member key (JSON_TYPE_MEMBER Child) # Next) of
           Inl e \<Rightarrow> Inl e
         | Inr fs \<Rightarrow> Inr (True, TargetMember # Next, fs))
      else
        (case deleteJsonMember Child k of
           Inl e \<Rightarrow> Inl e
         | Inr (Result, Child', fs) \<Rightarrow>
             if Result then
               Inr (True, TargetMember # Member key (JSON_TYPE_MEMBER Child') # Next, fs)
             else
               (case deleteJsonMember (Member key (JSON_TYPE_MEMBER Child) # Next) k of
                  Inl e \<Rightarrow> Inl e
                | Inr (Result', rest, fs') \<Rightarrow> Inr (Result', TargetMember # rest, fs'))))"
| "deleteJsonMember (TargetMember # Member key v # Next) k =
     (if key = k then
        (case destroyJsonMember (Member key v # Next) of
           Inl e \<Rightarrow> Inl e
         | Inr fs \<Rightarrow> Inr (True, TargetMember # Next, fs))
      else
        (case deleteJsonMember (Member key v # Next) k of
           Inl e \<Rightarrow> Inl e
         | Inr (Result', rest, fs') \<Rightarrow> Inr (Result', TargetMember # rest, fs')))"

text \<open>\<^verbatim>\<open>deleteJsonMember(json_object&, Key)\<close>.\<close>

definition deleteJsonMember_object ::
  "'n json_object \<Rightarrow> string \<Rightarrow> fault + (bool \<times> 'n json_object \<times> 'n freed list)" where
  "deleteJsonMember_object JsonObject k =
     (case First JsonObject of
        [] \<Rightarrow> Inr (True, JsonObject, [])
      | Temp # Next \<Rightarrow>
          if Key Temp = k then
            (case destroyJsonMember (Temp # Next) of
               Inl e \<Rightarrow> Inl e
             | Inr fs \<Rightarrow> Inr (True, JsonObject\<lparr>First := Next\<rparr>, fs))
          else
            (case deleteJsonMember (Temp # Next) k of
               Inl e \<Rightarrow> Inl e
             | Inr (Result, ms, fs) \<Rightarrow> Inr (Result, JsonObject\<lparr>First := ms\<rparr>, fs)))"

section \<open>The tokenizer (rcc_json_parser.h, rcc_json_parser.cpp)\<close>

datatype json_token_type =
    JSON_TOKEN_INVALID
  | JSON_TOKEN_OBJECT_START
  | JSON_TOKEN_OBJECT_END
  | JSON_TOKEN_ARRAY_START
  | JSON_TOKEN_ARRAY_END
  | JSON_TOKEN_COMMA
  | JSON_TOKEN_COLON
  | JSON_TOKEN_STRING
  | JSON_TOKEN_NUMBER
  | JSON_TOKEN_BOOLEAN
  | JSON_TOKEN_NULL

text \<open>
  \<^verbatim>\<open>String\<close> is a \<^verbatim>\<open>char[JSON_TOKEN_STRING_SIZE]\<close> that the constructor fills with zeros and
  that is read as a C string: the model keeps the characters before the first zero.
\<close>

datatype json_token = Token (Type: json_token_type) (String: string)

definition JSON_TOKEN_STRING_SIZE :: nat where
  "JSON_TOKEN_STRING_SIZE = 64"

text \<open>The constructor \<^verbatim>\<open>json_token()\<close>.\<close>

definition new_json_token :: json_token where
  "new_json_token = Token JSON_TOKEN_INVALID []"

text \<open>
  \<^verbatim>\<open>isWhiteSpace\<close> and \<^verbatim>\<open>isNumber\<close> of rcc_common.cpp (in the sources, the file stands after
  main.cpp): the first compares the character with space, newline, tab and carriage return,
  the second with the ten digits.
\<close>

definition isWhiteSpace :: "char \<Rightarrow> bool" where
  "isWhiteSpace Character \<longleftrightarrow> Character \<in> {CHR '' '', CHR 0x09, CHR 0x0A, CHR 0x0D}"

definition isNumber :: "char \<Rightarrow> bool" where
  "isNumber Character \<longleftrightarrow> Character \<in> set ''0123456789''"

text \<open>
  The input buffer is the list of the bytes that the pointer \<^verbatim>\<open>InputJsonBuffer\<close> can read.
  \<^verbatim>\<open>tokenizeString\<close> takes no length: it reads \<^verbatim>\<open>InputJsonBuffer[BufferIndex]\<close> and stops at
  the characters it looks for. A read at an index that the buffer does not hold is the
  fault \<open>OutOfBounds\<close>.

  \<^verbatim>\<open>while (isWhiteSpace(InputJsonBuffer[BufferIndex])) BufferIndex++\<close>:
\<close>

function skipWhiteSpace :: "string \<Rightarrow> nat \<Rightarrow> fault + nat" where
  "skipWhiteSpace InputJsonBuffer BufferIndex =
     (if BufferIndex < length InputJsonBuffer then
        (if isWhiteSpace (InputJsonBuffer ! BufferIndex)
         then skipWhiteSpace InputJsonBuffer (BufferIndex + 1)
         else Inr BufferIndex)
      else Inl OutOfBounds)"
  by pat_completeness auto
termination
  by (relation "measure (\<lambda>(buf, i). length buf - i)") auto

text \<open>
  \<^verbatim>\<open>while (InputJsonBuffer[BufferIndex] != '"' && InputJsonBuffer[BufferIndex] != '\0')
  BufferIndex++\<close>:
\<close>

function scanString :: "string \<Rightarrow> nat \<Rightarrow> fault + nat" where
  "scanString InputJsonBuffer BufferIndex =
     (if BufferIndex < length InputJsonBuffer then
        (if InputJsonBuffer ! BufferIndex \<noteq> CHR 0x22 \<and> InputJsonBuffer ! BufferIndex \<noteq> CHR 0x00
         then scanString InputJsonBuffer (BufferIndex + 1)
         else Inr BufferIndex)
      else Inl OutOfBounds)"
  by pat_completeness auto
termination
  by (relation "measure (\<lambda>(buf, i). length buf - i)") auto

text \<open>The loop of the number case, over digits, \<^verbatim>\<open>'.'\<close>, \<^verbatim>\<open>'e'\<close> and \<^verbatim>\<open>'-'\<close>:\<close>

function scanNumber :: "string \<Rightarrow> nat \<Rightarrow> fault + nat" where
  "scanNumber InputJsonBuffer BufferIndex =
     (if BufferIndex < length InputJsonBuffer then
        (if isNumber (InputJsonBuffer ! BufferIndex) \<or> InputJsonBuffer ! BufferIndex = CHR ''.''
            \<or> InputJsonBuffer ! BufferIndex = CHR ''e'' \<or> InputJsonBuffer ! BufferIndex = CHR ''-''
         then scanNumber InputJsonBuffer (BufferIndex + 1)
         else Inr BufferIndex)
      else Inl OutOfBounds)"
  by pat_completeness auto
termination
  by (relation "measure (\<lambda>(buf, i). length buf - i)") auto

text \<open>
  \<^verbatim>\<open>strncmp(&InputJsonBuffer[BufferIndex], Literal, n) == 0\<close> for a literal of \<open>n\<close> characters,
  none of them zero: the bytes are compared in order up to the first difference.
\<close>

fun strncmpIsZero :: "string \<Rightarrow> nat \<Rightarrow> string \<Rightarrow> fault + bool" where
  "strncmpIsZero InputJsonBuffer BufferIndex [] = Inr True"
| "strncmpIsZero InputJsonBuffer BufferIndex (l # Literal) =
     (if BufferIndex < length InputJsonBuffer then
        (if InputJsonBuffer ! BufferIndex = l
         then strncmpIsZero InputJsonBuffer (BufferIndex + 1) Literal
         else Inr False)
      else Inl OutOfBounds)"

text \<open>
  \<^verbatim>\<open>strncpy(Result.String, &InputJsonBuffer[StartIndex], n); Result.String[n] = '\0'\<close> writes
  \<open>n + 1\<close> bytes into the \<^verbatim>\<open>JSON_TOKEN_STRING_SIZE\<close> bytes of the token.
\<close>

definition copyToToken ::
  "json_token_type \<Rightarrow> string \<Rightarrow> nat \<Rightarrow> nat \<Rightarrow> nat \<Rightarrow> fault + (json_token \<times> nat)" where
  "copyToToken TokenType InputJsonBuffer StartIndex n BufferIndex =
     (if JSON_TOKEN_STRING_SIZE \<le> n then Inl TokenOverflow
      else Inr (Token TokenType (take n (drop StartIndex InputJsonBuffer)), BufferIndex))"

text \<open>
  A literal \<^verbatim>\<open>true\<close>, \<^verbatim>\<open>false\<close> or \<^verbatim>\<open>null\<close>: the token keeps the type \<^verbatim>\<open>JSON_TOKEN_INVALID\<close> and
  the index stays where it is when the characters differ.
\<close>

definition literalToken ::
  "json_token_type \<Rightarrow> string \<Rightarrow> string \<Rightarrow> nat \<Rightarrow> fault + (json_token \<times> nat)" where
  "literalToken TokenType Literal InputJsonBuffer BufferIndex =
     (case strncmpIsZero InputJsonBuffer BufferIndex Literal of
        Inl e \<Rightarrow> Inl e
      | Inr same \<Rightarrow>
          if same then Inr (Token TokenType Literal, BufferIndex + length Literal)
          else Inr (new_json_token, BufferIndex))"

text \<open>
  \<^verbatim>\<open>tokenizeString(InputJsonBuffer, BufferIndex)\<close>: the token and the new value of the
  reference \<^verbatim>\<open>BufferIndex\<close>.
\<close>

definition tokenizeString :: "string \<Rightarrow> nat \<Rightarrow> fault + (json_token \<times> nat)" where
  "tokenizeString InputJsonBuffer BufferIndex =
     (case skipWhiteSpace InputJsonBuffer BufferIndex of
        Inl e \<Rightarrow> Inl e
      | Inr i \<Rightarrow>
          (let c = InputJsonBuffer ! i in
           if c = CHR ''{'' then Inr (Token JSON_TOKEN_OBJECT_START [], i + 1)
           else if c = CHR ''}'' then Inr (Token JSON_TOKEN_OBJECT_END [], i + 1)
           else if c = CHR ''['' then Inr (Token JSON_TOKEN_ARRAY_START [], i + 1)
           else if c = CHR '']'' then Inr (Token JSON_TOKEN_ARRAY_END [], i + 1)
           else if c = CHR '','' then Inr (Token JSON_TOKEN_COMMA [], i + 1)
           else if c = CHR '':'' then Inr (Token JSON_TOKEN_COLON [], i + 1)
           else if c = CHR 0x22 then
             (case scanString InputJsonBuffer (i + 1) of
                Inl e \<Rightarrow> Inl e
              | Inr j \<Rightarrow>
                  if InputJsonBuffer ! j = CHR 0x00 then Inr (new_json_token, j)
                  else copyToToken JSON_TOKEN_STRING InputJsonBuffer (i + 1) (j - (i + 1)) (j + 1))
           else if c = CHR ''-'' \<or> c \<in> set ''0123456789'' then
             (case scanNumber InputJsonBuffer (i + 1) of
                Inl e \<Rightarrow> Inl e
              | Inr j \<Rightarrow>
                  if InputJsonBuffer ! j = CHR 0x00 then Inr (new_json_token, j)
                  else copyToToken JSON_TOKEN_NUMBER InputJsonBuffer i (j - i) j)
           else if c = CHR ''t'' then literalToken JSON_TOKEN_BOOLEAN ''true'' InputJsonBuffer i
           else if c = CHR ''f'' then literalToken JSON_TOKEN_BOOLEAN ''false'' InputJsonBuffer i
           else if c = CHR ''n'' then literalToken JSON_TOKEN_NULL ''null'' InputJsonBuffer i
           else Inr (new_json_token, i)))"

section \<open>The parser (rcc_json_parser.cpp)\<close>

text \<open>
  What the parser and the serializer take from outside the sources: \<^verbatim>\<open>atof\<close>; whether
  \<^verbatim>\<open>malloc(0)\<close> returns the null pointer (the C standard allows both answers; a \<^verbatim>\<open>malloc\<close>
  of a size other than zero is taken to succeed); and the real number that a \<^verbatim>\<open>float64_t\<close>
  holds (the numbers that \<^verbatim>\<open>atof\<close> returns for the number tokens of 63 bytes at most are
  finite as long as the token has no exponent).
\<close>

record 'n platform =
  atof :: "string \<Rightarrow> 'n"
  mallocZeroIsNull :: bool
  valueOf :: "'n \<Rightarrow> real"

text \<open>
  How a step of a loop of \<^verbatim>\<open>parseStringToJson\<close> ends: \<open>GoOn x i\<close> goes on with the data \<open>x\<close>
  and \<^verbatim>\<open>BufferIndex\<close> \<open>i\<close>; \<open>ReturnInvalid i\<close> is \<^verbatim>\<open>Result.IsValid = false; return Result;\<close>
  with \<^verbatim>\<open>BufferIndex\<close> \<open>i\<close>.
\<close>

datatype 'a step = GoOn 'a nat | ReturnInvalid nat

text \<open>
  \<^verbatim>\<open>parseStringToJson\<close> does not return on every input (a nested object of an array that
  starts at or after \<^verbatim>\<open>InputJsonFileSize\<close> is tokenized again and again), so the model counts
  the calls and the iterations of the loops: the first argument bounds them, and \<open>None\<close>
  says that the bound was reached. \<open>Some (Inl e)\<close> is a fault, \<open>Some (Inr (Result, i))\<close> the
  object returned and the value \<open>i\<close> left in the reference \<^verbatim>\<open>BufferIndex\<close>.

  \<open>andThen r f\<close> goes on with \<open>f\<close> where \<open>r\<close> is a result, and is \<open>r\<close> where \<open>r\<close> is a fault
  or the bound; \<open>token\<close> is a call of \<^verbatim>\<open>tokenizeString\<close>, which needs no bound.
\<close>

definition andThen ::
  "(fault + 'a) option \<Rightarrow> ('a \<Rightarrow> (fault + 'b) option) \<Rightarrow> (fault + 'b) option" where
  "andThen r f = (case r of None \<Rightarrow> None | Some (Inl e) \<Rightarrow> Some (Inl e) | Some (Inr x) \<Rightarrow> f x)"

definition token :: "string \<Rightarrow> nat \<Rightarrow> (fault + (json_token \<times> nat)) option" where
  "token InputJsonBuffer BufferIndex = Some (tokenizeString InputJsonBuffer BufferIndex)"

definition returns :: "'a \<Rightarrow> (fault + 'a) option" where
  "returns x = Some (Inr x)"

text \<open>
  \<open>parseStringToJson\<close> is the outer \<^verbatim>\<open>while (BufferIndex < InputJsonFileSize)\<close>. \<open>parseMembers\<close>
  is the inner \<^verbatim>\<open>while (Token.Type != JSON_TOKEN_OBJECT_END)\<close>, whose condition never changes
  and which is left by \<^verbatim>\<open>return\<close> only. \<open>arraySizePass\<close> and \<open>arrayFillPass\<close> are the two loops
  of the array case; \<^verbatim>\<open>ValueArray[ValueArrayIndex]\<close> is written at the indices 0, 1, 2, ... in
  turn, so \<open>ValueArray\<close> is the list of the elements written so far.
\<close>

function (sequential) parseStringToJson ::
    "nat \<Rightarrow> 'n platform \<Rightarrow> string \<Rightarrow> nat \<Rightarrow> nat \<Rightarrow> (fault + ('n json_object \<times> nat)) option"
  and parseMembers ::
    "nat \<Rightarrow> 'n platform \<Rightarrow> string \<Rightarrow> nat \<Rightarrow> 'n json_object \<Rightarrow> nat
       \<Rightarrow> (fault + ('n json_object \<times> nat)) option"
  and arraySizePass ::
    "nat \<Rightarrow> 'n platform \<Rightarrow> string \<Rightarrow> nat \<Rightarrow> json_token \<Rightarrow> nat \<Rightarrow> nat
       \<Rightarrow> (fault + nat step) option"
  and arrayFillPass ::
    "nat \<Rightarrow> 'n platform \<Rightarrow> string \<Rightarrow> nat \<Rightarrow> json_token \<Rightarrow> nat \<Rightarrow> 'n json_value list
       \<Rightarrow> (fault + 'n json_value list step) option" where
  "parseStringToJson 0 pl InputJsonBuffer InputJsonFileSize BufferIndex = None"
| "parseStringToJson (Suc n) pl InputJsonBuffer InputJsonFileSize BufferIndex =
     (if BufferIndex < InputJsonFileSize then
        andThen (token InputJsonBuffer BufferIndex) (\<lambda>(Token', i).
        if Type Token' = JSON_TOKEN_INVALID then returns (new_json_object, i)
        else if Type Token' = JSON_TOKEN_OBJECT_START then
          parseMembers n pl InputJsonBuffer InputJsonFileSize new_json_object i
        else parseStringToJson n pl InputJsonBuffer InputJsonFileSize i)
      else returns (new_json_object, BufferIndex))"
| "parseMembers 0 pl InputJsonBuffer InputJsonFileSize Result BufferIndex = None"
| "parseMembers (Suc n) pl InputJsonBuffer InputJsonFileSize Result BufferIndex =
     andThen (token InputJsonBuffer BufferIndex) (\<lambda>(KeyToken, i1).
     if Type KeyToken \<noteq> JSON_TOKEN_STRING then returns (Result\<lparr>IsValid := False\<rparr>, i1)
     else
     andThen (token InputJsonBuffer i1) (\<lambda>(ColonToken, i2).
     if Type ColonToken \<noteq> JSON_TOKEN_COLON then returns (Result\<lparr>IsValid := False\<rparr>, i2)
     else
     andThen (token InputJsonBuffer i2) (\<lambda>(ValueToken, i3).
     andThen
       (case Type ValueToken of
          JSON_TOKEN_OBJECT_START \<Rightarrow>
            andThen (parseStringToJson n pl InputJsonBuffer InputJsonFileSize (i3 - 1))
              (\<lambda>(Child, i4).
            returns (GoOn (addJsonMember_Object Result (Some (String KeyToken)) Child) i4))
        | JSON_TOKEN_ARRAY_START \<Rightarrow>
            andThen (token InputJsonBuffer i3) (\<lambda>(ArrayToken, i4).
            andThen (arraySizePass n pl InputJsonBuffer InputJsonFileSize ArrayToken i4 0)
              (\<lambda>sized.
            case sized of
              ReturnInvalid i5 \<Rightarrow> returns (ReturnInvalid i5)
            | GoOn ArraySize i5 \<Rightarrow>
                andThen (token InputJsonBuffer i3) (\<lambda>(ArrayToken', i6).
                andThen (arrayFillPass n pl InputJsonBuffer InputJsonFileSize ArrayToken' i6 [])
                  (\<lambda>filled.
                case filled of
                  ReturnInvalid i7 \<Rightarrow> returns (ReturnInvalid i7)
                | GoOn ValueArray i7 \<Rightarrow>
                    returns (GoOn
                      (addJsonMember_Array Result (Some (String KeyToken))
                         (if ArraySize = 0 \<and> mallocZeroIsNull pl then None else Some ValueArray)
                         ArraySize)
                      i7)))))
        | JSON_TOKEN_STRING \<Rightarrow>
            returns (GoOn
              (addJsonMember_String Result (Some (String KeyToken)) (String ValueToken)) i3)
        | JSON_TOKEN_NUMBER \<Rightarrow>
            returns (GoOn
              (addJsonMember_Number Result (Some (String KeyToken)) (atof pl (String ValueToken)))
              i3)
        | JSON_TOKEN_BOOLEAN \<Rightarrow>
            returns (GoOn
              (addJsonMember_Boolean Result (Some (String KeyToken))
                 (take 4 (String ValueToken) = ''true''))
              i3)
        | JSON_TOKEN_NULL \<Rightarrow>
            returns (GoOn (addJsonMemberNull Result (Some (String KeyToken))) i3)
        | _ \<Rightarrow> returns (ReturnInvalid i3))
       (\<lambda>added.
     case added of
       ReturnInvalid i \<Rightarrow> returns (Result\<lparr>IsValid := False\<rparr>, i)
     | GoOn Result' i \<Rightarrow>
         andThen (token InputJsonBuffer i) (\<lambda>(CommaToken, i').
         if Type CommaToken \<noteq> JSON_TOKEN_COMMA then returns (Result', i')
         else parseMembers n pl InputJsonBuffer InputJsonFileSize Result' i')))))"
| "arraySizePass 0 pl InputJsonBuffer InputJsonFileSize ArrayToken BufferIndex ArraySize = None"
| "arraySizePass (Suc n) pl InputJsonBuffer InputJsonFileSize ArrayToken BufferIndex ArraySize =
     (if Type ArrayToken = JSON_TOKEN_ARRAY_END then returns (GoOn ArraySize BufferIndex)
      else
        andThen
          (case Type ArrayToken of
             JSON_TOKEN_OBJECT_START \<Rightarrow>
               andThen (parseStringToJson n pl InputJsonBuffer InputJsonFileSize (BufferIndex - 1))
                 (\<lambda>(Discarded, ArrayBufferIndex).
               returns (GoOn (ArraySize + 1) ArrayBufferIndex))
           | JSON_TOKEN_NUMBER \<Rightarrow> returns (GoOn (ArraySize + 1) BufferIndex)
           | JSON_TOKEN_BOOLEAN \<Rightarrow> returns (GoOn (ArraySize + 1) BufferIndex)
           | JSON_TOKEN_NULL \<Rightarrow> returns (GoOn (ArraySize + 1) BufferIndex)
           | JSON_TOKEN_STRING \<Rightarrow> returns (GoOn (ArraySize + 1) BufferIndex)
           | JSON_TOKEN_COMMA \<Rightarrow> returns (GoOn ArraySize BufferIndex)
           | _ \<Rightarrow> returns (ReturnInvalid BufferIndex))
          (\<lambda>counted.
        case counted of
          ReturnInvalid i \<Rightarrow> returns (ReturnInvalid i)
        | GoOn ArraySize' i \<Rightarrow>
            andThen (token InputJsonBuffer i) (\<lambda>(ArrayToken', i').
            arraySizePass n pl InputJsonBuffer InputJsonFileSize ArrayToken' i' ArraySize')))"
| "arrayFillPass 0 pl InputJsonBuffer InputJsonFileSize ArrayToken BufferIndex ValueArray = None"
| "arrayFillPass (Suc n) pl InputJsonBuffer InputJsonFileSize ArrayToken BufferIndex ValueArray =
     (if Type ArrayToken = JSON_TOKEN_ARRAY_END then returns (GoOn ValueArray BufferIndex)
      else
        andThen
          (case Type ArrayToken of
             JSON_TOKEN_OBJECT_START \<Rightarrow>
               andThen (parseStringToJson n pl InputJsonBuffer InputJsonFileSize (BufferIndex - 1))
                 (\<lambda>(TempObject, ArrayBufferIndex).
               returns (GoOn (ValueArray @ [JSON_TYPE_MEMBER (First TempObject)])
                          ArrayBufferIndex))
           | JSON_TOKEN_NUMBER \<Rightarrow>
               returns (GoOn (ValueArray @ [JSON_TYPE_NUMBER (atof pl (String ArrayToken))])
                          BufferIndex)
           | JSON_TOKEN_BOOLEAN \<Rightarrow>
               returns (GoOn
                 (ValueArray @ [JSON_TYPE_BOOLEAN (take 4 (String ArrayToken) = ''true'')])
                 BufferIndex)
           | JSON_TOKEN_NULL \<Rightarrow> returns (GoOn (ValueArray @ [JSON_TYPE_NULL]) BufferIndex)
           | JSON_TOKEN_STRING \<Rightarrow>
               returns (GoOn (ValueArray @ [JSON_TYPE_STRING (String ArrayToken)]) BufferIndex)
           | JSON_TOKEN_COMMA \<Rightarrow> returns (GoOn ValueArray BufferIndex)
           | _ \<Rightarrow> returns (ReturnInvalid BufferIndex))
          (\<lambda>stored.
        case stored of
          ReturnInvalid i \<Rightarrow> returns (ReturnInvalid i)
        | GoOn ValueArray' i \<Rightarrow>
            andThen (token InputJsonBuffer i) (\<lambda>(ArrayToken', i').
            arrayFillPass n pl InputJsonBuffer InputJsonFileSize ArrayToken' i' ValueArray')))"
  by pat_completeness auto
termination
  by (relation "measure (case_sum (case_sum fst fst) (case_sum fst fst))") simp_all

text \<open>
  A parse returns \<open>r\<close> when every bound from some bound on gives \<open>r\<close>.
\<close>

definition parseReturns ::
  "'n platform \<Rightarrow> string \<Rightarrow> nat \<Rightarrow> nat \<Rightarrow> fault + ('n json_object \<times> nat) \<Rightarrow> bool" where
  "parseReturns pl InputJsonBuffer InputJsonFileSize BufferIndex r \<longleftrightarrow>
     (\<exists>n. \<forall>k. parseStringToJson (n + k) pl InputJsonBuffer InputJsonFileSize BufferIndex = Some r)"

text \<open>
  The functions above are the parser on \<open>ZeroMemory\<close>: their insert operations take the
  unwritten \<^verbatim>\<open>Next\<close> of the last member as null. The same loops with the memory as a
  parameter: an insert operation that reads an unwritten \<^verbatim>\<open>Next\<close> on \<open>OtherMemory\<close> ends the
  parse with the fault.
\<close>

function (sequential) parseStringToJsonOn ::
    "nat \<Rightarrow> memory \<Rightarrow> 'n platform \<Rightarrow> string \<Rightarrow> nat \<Rightarrow> nat \<Rightarrow> (fault + ('n json_object \<times> nat)) option"
  and parseMembersOn ::
    "nat \<Rightarrow> memory \<Rightarrow> 'n platform \<Rightarrow> string \<Rightarrow> nat \<Rightarrow> 'n json_object \<Rightarrow> nat
       \<Rightarrow> (fault + ('n json_object \<times> nat)) option"
  and arraySizePassOn ::
    "nat \<Rightarrow> memory \<Rightarrow> 'n platform \<Rightarrow> string \<Rightarrow> nat \<Rightarrow> json_token \<Rightarrow> nat \<Rightarrow> nat
       \<Rightarrow> (fault + nat step) option"
  and arrayFillPassOn ::
    "nat \<Rightarrow> memory \<Rightarrow> 'n platform \<Rightarrow> string \<Rightarrow> nat \<Rightarrow> json_token \<Rightarrow> nat \<Rightarrow> 'n json_value list
       \<Rightarrow> (fault + 'n json_value list step) option" where
  "parseStringToJsonOn 0 mem pl InputJsonBuffer InputJsonFileSize BufferIndex = None"
| "parseStringToJsonOn (Suc n) mem pl InputJsonBuffer InputJsonFileSize BufferIndex =
     (if BufferIndex < InputJsonFileSize then
        andThen (token InputJsonBuffer BufferIndex) (\<lambda>(Token', i).
        if Type Token' = JSON_TOKEN_INVALID then returns (new_json_object, i)
        else if Type Token' = JSON_TOKEN_OBJECT_START then
          parseMembersOn n mem pl InputJsonBuffer InputJsonFileSize new_json_object i
        else parseStringToJsonOn n mem pl InputJsonBuffer InputJsonFileSize i)
      else returns (new_json_object, BufferIndex))"
| "parseMembersOn 0 mem pl InputJsonBuffer InputJsonFileSize Result BufferIndex = None"
| "parseMembersOn (Suc n) mem pl InputJsonBuffer InputJsonFileSize Result BufferIndex =
     andThen (token InputJsonBuffer BufferIndex) (\<lambda>(KeyToken, i1).
     if Type KeyToken \<noteq> JSON_TOKEN_STRING then returns (Result\<lparr>IsValid := False\<rparr>, i1)
     else
     andThen (token InputJsonBuffer i1) (\<lambda>(ColonToken, i2).
     if Type ColonToken \<noteq> JSON_TOKEN_COLON then returns (Result\<lparr>IsValid := False\<rparr>, i2)
     else
     andThen (token InputJsonBuffer i2) (\<lambda>(ValueToken, i3).
     andThen
       (case Type ValueToken of
          JSON_TOKEN_OBJECT_START \<Rightarrow>
            andThen (parseStringToJsonOn n mem pl InputJsonBuffer InputJsonFileSize (i3 - 1))
              (\<lambda>(Child, i4).
            andThen (Some (addJsonMember_ObjectOn mem Result (Some (String KeyToken)) Child))
              (\<lambda>Result'. returns (GoOn Result' i4)))
        | JSON_TOKEN_ARRAY_START \<Rightarrow>
            andThen (token InputJsonBuffer i3) (\<lambda>(ArrayToken, i4).
            andThen (arraySizePassOn n mem pl InputJsonBuffer InputJsonFileSize ArrayToken i4 0)
              (\<lambda>sized.
            case sized of
              ReturnInvalid i5 \<Rightarrow> returns (ReturnInvalid i5)
            | GoOn ArraySize i5 \<Rightarrow>
                andThen (token InputJsonBuffer i3) (\<lambda>(ArrayToken', i6).
                andThen (arrayFillPassOn n mem pl InputJsonBuffer InputJsonFileSize ArrayToken' i6 [])
                  (\<lambda>filled.
                case filled of
                  ReturnInvalid i7 \<Rightarrow> returns (ReturnInvalid i7)
                | GoOn ValueArray i7 \<Rightarrow>
                    andThen
                      (Some (addJsonMember_ArrayOn mem Result (Some (String KeyToken))
                         (if ArraySize = 0 \<and> mallocZeroIsNull pl then None else Some ValueArray)
                         ArraySize))
                      (\<lambda>Result'. returns (GoOn Result' i7))))))
        | JSON_TOKEN_STRING \<Rightarrow>
            andThen
              (Some (addJsonMember_StringOn mem Result (Some (String KeyToken))
                 (String ValueToken)))
              (\<lambda>Result'. returns (GoOn Result' i3))
        | JSON_TOKEN_NUMBER \<Rightarrow>
            andThen
              (Some (addJsonMember_NumberOn mem Result (Some (String KeyToken))
                 (atof pl (String ValueToken))))
              (\<lambda>Result'. returns (GoOn Result' i3))
        | JSON_TOKEN_BOOLEAN \<Rightarrow>
            andThen
              (Some (addJsonMember_BooleanOn mem Result (Some (String KeyToken))
                 (take 4 (String ValueToken) = ''true'')))
              (\<lambda>Result'. returns (GoOn Result' i3))
        | JSON_TOKEN_NULL \<Rightarrow>
            andThen (Some (addJsonMemberNullOn mem Result (Some (String KeyToken))))
              (\<lambda>Result'. returns (GoOn Result' i3))
        | _ \<Rightarrow> returns (ReturnInvalid i3))
       (\<lambda>added.
     case added of
       ReturnInvalid i \<Rightarrow> returns (Result\<lparr>IsValid := False\<rparr>, i)
     | GoOn Result' i \<Rightarrow>
         andThen (token InputJsonBuffer i) (\<lambda>(CommaToken, i').
         if Type CommaToken \<noteq> JSON_TOKEN_COMMA then returns (Result', i')
         else parseMembersOn n mem pl InputJsonBuffer InputJsonFileSize Result' i')))))"
| "arraySizePassOn 0 mem pl InputJsonBuffer InputJsonFileSize ArrayToken BufferIndex ArraySize = None"
| "arraySizePassOn (Suc n) mem pl InputJsonBuffer InputJsonFileSize ArrayToken BufferIndex ArraySize =
     (if Type ArrayToken = JSON_TOKEN_ARRAY_END then returns (GoOn ArraySize BufferIndex)
      else
        andThen
          (case Type ArrayToken of
             JSON_TOKEN_OBJECT_START \<Rightarrow>
               andThen (parseStringToJsonOn n mem pl InputJsonBuffer InputJsonFileSize (BufferIndex - 1))
                 (\<lambda>(Discarded, ArrayBufferIndex).
               returns (GoOn (ArraySize + 1) ArrayBufferIndex))
           | JSON_TOKEN_NUMBER \<Rightarrow> returns (GoOn (ArraySize + 1) BufferIndex)
           | JSON_TOKEN_BOOLEAN \<Rightarrow> returns (GoOn (ArraySize + 1) BufferIndex)
           | JSON_TOKEN_NULL \<Rightarrow> returns (GoOn (ArraySize + 1) BufferIndex)
           | JSON_TOKEN_STRING \<Rightarrow> returns (GoOn (ArraySize + 1) BufferIndex)
           | JSON_TOKEN_COMMA \<Rightarrow> returns (GoOn ArraySize BufferIndex)
           | _ \<Rightarrow> returns (ReturnInvalid BufferIndex))
          (\<lambda>counted.
        case counted of
          ReturnInvalid i \<Rightarrow> returns (ReturnInvalid i)
        | GoOn ArraySize' i \<Rightarrow>
            andThen (token InputJsonBuffer i) (\<lambda>(ArrayToken', i').
            arraySizePassOn n mem pl InputJsonBuffer InputJsonFileSize ArrayToken' i' ArraySize')))"
| "arrayFillPassOn 0 mem pl InputJsonBuffer InputJsonFileSize ArrayToken BufferIndex ValueArray = None"
| "arrayFillPassOn (Suc n) mem pl InputJsonBuffer InputJsonFileSize ArrayToken BufferIndex ValueArray =
     (if Type ArrayToken = JSON_TOKEN_ARRAY_END then returns (GoOn ValueArray BufferIndex)
      else
        andThen
          (case Type ArrayToken of
             JSON_TOKEN_OBJECT_START \<Rightarrow>
               andThen (parseStringToJsonOn n mem pl InputJsonBuffer InputJsonFileSize (BufferIndex - 1))
                 (\<lambda>(TempObject, ArrayBufferIndex).
               returns (GoOn (ValueArray @ [JSON_TYPE_MEMBER (First TempObject)])
                          ArrayBufferIndex))
           | JSON_TOKEN_NUMBER \<Rightarrow>
               returns (GoOn (ValueArray @ [JSON_TYPE_NUMBER (atof pl (String ArrayToken))])
                          BufferIndex)
           | JSON_TOKEN_BOOLEAN \<Rightarrow>
               returns (GoOn
                 (ValueArray @ [JSON_TYPE_BOOLEAN (take 4 (String ArrayToken) = ''true'')])
                 BufferIndex)
           | JSON_TOKEN_NULL \<Rightarrow> returns (GoOn (ValueArray @ [JSON_TYPE_NULL]) BufferIndex)
           | JSON_TOKEN_STRING \<Rightarrow>
               returns (GoOn (ValueArray @ [JSON_TYPE_STRING (String ArrayToken)]) BufferIndex)
           | JSON_TOKEN_COMMA \<Rightarrow> returns (GoOn ValueArray BufferIndex)
           | _ \<Rightarrow> returns (ReturnInvalid BufferIndex))
          (\<lambda>stored.
        case stored of
          ReturnInvalid i \<Rightarrow> returns (ReturnInvalid i)
        | GoOn ValueArray' i \<Rightarrow>
            andThen (token InputJsonBuffer i) (\<lambda>(ArrayToken', i').
            arrayFillPassOn n mem pl InputJsonBuffer InputJsonFileSize ArrayToken' i' ValueArray')))"
  by pat_completeness auto
termination
  by (relation "measure (case_sum (case_sum fst fst) (case_sum fst fst))") simp_all


text \<open>
  A platform for closed examples: a number is kept as the text it is converted from, and
  holds the number that the text denotes as a decimal numeral (a sign, digits, and digits
  after a point).
\<close>

definition digitValue :: "char \<Rightarrow> nat" where
  "digitValue c = of_char c - 48"

definition naturalValue :: "string \<Rightarrow> nat" where
  "naturalValue cs = foldl (\<lambda>a c. 10 * a + digitValue c) 0 cs"

definition decimalValue :: "string \<Rightarrow> real" where
  "decimalValue t =
     (let negative = (t \<noteq> [] \<and> hd t = CHR ''-'');
          unsigned = (if negative then tl t else t);
          whole = takeWhile (\<lambda>c. c \<noteq> CHR ''.'') unsigned;
          fraction = drop 1 (dropWhile (\<lambda>c. c \<noteq> CHR ''.'') unsigned);
          v = real (naturalValue whole) + real (naturalValue fraction) / 10 ^ length fraction
      in if negative then - v else v)"

definition textPlatform :: "string platform" where
  "textPlatform = \<lparr>atof = (\<lambda>s. s), mallocZeroIsNull = False, valueOf = decimalValue\<rparr>"

section \<open>The serializer (rcc_json_object.cpp)\<close>

text \<open>
  The functions return the characters that \<^verbatim>\<open>printf\<close> writes; the messages of \<^verbatim>\<open>logOutput\<close>
  are left out. \<open>thenPrint\<close> puts two outputs one after the other.
\<close>

definition thenPrint :: "fault + string \<Rightarrow> fault + string \<Rightarrow> fault + string" where
  "thenPrint a b =
     (case a of Inl e \<Rightarrow> Inl e | Inr x \<Rightarrow> (case b of Inl e \<Rightarrow> Inl e | Inr y \<Rightarrow> Inr (x @ y)))"

text \<open>
  \<^verbatim>\<open>isFractionalPartZero\<close> of rcc_common.cpp, on the number that the \<^verbatim>\<open>float64_t\<close> holds:
  \<^verbatim>\<open>modf\<close> splits it into the integral part, rounded toward zero, and the rest, and both are
  exact. The constant \<^verbatim>\<open>1e-9\<close> is taken as the number it denotes (no \<^verbatim>\<open>float64_t\<close> lies
  between that number and the \<^verbatim>\<open>float64_t\<close> nearest to it, so the comparison is the same).
\<close>

definition modf :: "real \<Rightarrow> real \<times> real" where
  "modf Number =
     (let IntegerPart = (if 0 \<le> Number then of_int \<lfloor>Number\<rfloor> else of_int \<lceil>Number\<rceil>)
      in (Number - IntegerPart, IntegerPart))"

definition isFractionalPartZero :: "real \<Rightarrow> bool" where
  "isFractionalPartZero Number \<longleftrightarrow>
     (case modf Number of (FractionalPart, IntegerPart) \<Rightarrow> \<bar>FractionalPart\<bar> < 1 / 10 ^ 9)"

text \<open>
  \<^verbatim>\<open>(int32_t)JsonValue.Number\<close> drops the fractional part, and is undefined where the result is
  not a value of \<^verbatim>\<open>int32_t\<close>.
\<close>

definition castToInt32 :: "real \<Rightarrow> fault + int" where
  "castToInt32 Number =
     (let n = (if 0 \<le> Number then \<lfloor>Number\<rfloor> else \<lceil>Number\<rceil>)
      in if - (2 ^ 31) \<le> n \<and> n < 2 ^ 31 then Inr n else Inl CastOverflow)"

text \<open>
  What \<^verbatim>\<open>printf\<close> writes for \<^verbatim>\<open>%d\<close> and for \<^verbatim>\<open>%.4lf\<close>: the decimal digits of the integer after
  its sign; and the sign, the digits of the integral part, a point and four digits of the
  number rounded to four places, to the nearest and to the even neighbour in the middle.
\<close>

function decimalDigits :: "nat \<Rightarrow> string" where
  "decimalDigits n =
     (if n < 10 then [''0123456789'' ! n]
      else decimalDigits (n div 10) @ [''0123456789'' ! (n mod 10)])"
  by pat_completeness auto
termination
  by (relation "measure id") auto

declare decimalDigits.simps [simp del]

definition printf_d :: "int \<Rightarrow> string" where
  "printf_d n = (if n < 0 then CHR ''-'' # decimalDigits (nat (- n)) else decimalDigits (nat n))"

definition roundToEven :: "real \<Rightarrow> nat" where
  "roundToEven x =
     (let below = nat \<lfloor>x\<rfloor>; rest = x - real below
      in if rest < 1 / 2 then below
         else if 1 / 2 < rest then below + 1
         else if even below then below else below + 1)"

definition printf_4lf :: "real \<Rightarrow> string" where
  "printf_4lf x =
     (let r = roundToEven (\<bar>x\<bar> * 10 ^ 4)
      in (if x < 0 then ''-'' else []) @ decimalDigits (r div 10 ^ 4) @ ''.'' @
         [''0123456789'' ! (r div 1000 mod 10), ''0123456789'' ! (r div 100 mod 10),
          ''0123456789'' ! (r div 10 mod 10), ''0123456789'' ! (r mod 10)])"

text \<open>
  \<^verbatim>\<open>printJsonMember\<close> takes a \<^verbatim>\<open>json_member\<close> by value: the member and the list its \<^verbatim>\<open>Next\<close>
  points to. \<open>printMemberLoop\<close> is its \<^verbatim>\<open>while (true)\<close>, \<open>printArrayLoop\<close> the \<^verbatim>\<open>for\<close> loop of
  the array case. \<^verbatim>\<open>printJsonValue\<close> dereferences \<^verbatim>\<open>Child\<close> to pass the member by value.
  The test \<^verbatim>\<open>if (TargetMember->Next)\<close> at the last member of a list reads a \<^verbatim>\<open>Next\<close> that was
  never written: the list ends there on \<open>ZeroMemory\<close>.
\<close>

function (sequential) printJsonValue ::
    "memory \<Rightarrow> 'n platform \<Rightarrow> 'n json_value \<Rightarrow> fault + string"
  and printJsonMember ::
    "memory \<Rightarrow> 'n platform \<Rightarrow> 'n json_member \<Rightarrow> 'n json_member list \<Rightarrow> fault + string"
  and printMemberLoop ::
    "memory \<Rightarrow> 'n platform \<Rightarrow> 'n json_member \<Rightarrow> 'n json_member list \<Rightarrow> fault + string"
  and printArrayLoop :: "memory \<Rightarrow> 'n platform \<Rightarrow> 'n json_value list \<Rightarrow> fault + string" where
  "printJsonValue mem pl (JSON_TYPE_MEMBER []) = Inl NullDereference"
| "printJsonValue mem pl (JSON_TYPE_MEMBER (Child # Next)) = printJsonMember mem pl Child Next"
| "printJsonValue mem pl (JSON_TYPE_ARRAY Head) =
     thenPrint (Inr ''['') (thenPrint (printArrayLoop mem pl Head) (Inr '']''))"
| "printJsonValue mem pl (JSON_TYPE_STRING String') = Inr ([CHR 0x22] @ String' @ [CHR 0x22])"
| "printJsonValue mem pl (JSON_TYPE_NUMBER Number) =
     (if isFractionalPartZero (valueOf pl Number) then
        (case castToInt32 (valueOf pl Number) of
           Inl e \<Rightarrow> Inl e
         | Inr n \<Rightarrow> Inr (printf_d n))
      else Inr (printf_4lf (valueOf pl Number)))"
| "printJsonValue mem pl (JSON_TYPE_BOOLEAN Boolean) =
     Inr (if Boolean then ''true'' else ''false'')"
| "printJsonValue mem pl JSON_TYPE_NULL = Inr ''null''"
| "printJsonValue mem pl JSON_TYPE_INVALID = Inr []"
| "printJsonMember mem pl Member' Next =
     thenPrint (Inr ''{'') (thenPrint (printMemberLoop mem pl Member' Next) (Inr ''}''))"
| "printMemberLoop mem pl (Member key v) [] =
     thenPrint (Inr ([CHR 0x22] @ key @ [CHR 0x22] @ '' : ''))
       (thenPrint (printJsonValue mem pl v)
          (if mem = ZeroMemory then Inr [] else Inl IndeterminateRead))"
| "printMemberLoop mem pl (Member key v) (TargetMember # Next) =
     thenPrint (Inr ([CHR 0x22] @ key @ [CHR 0x22] @ '' : ''))
       (thenPrint (printJsonValue mem pl v)
          (thenPrint (Inr '', '') (printMemberLoop mem pl TargetMember Next)))"
| "printArrayLoop mem pl [] = Inr []"
| "printArrayLoop mem pl [v] = printJsonValue mem pl v"
| "printArrayLoop mem pl (v # w # Head) =
     thenPrint (printJsonValue mem pl v)
       (thenPrint (Inr '', '') (printArrayLoop mem pl (w # Head)))"
  by pat_completeness auto
termination
  by (relation "measure (case_sum
        (case_sum (\<lambda>(mem, pl, v). 3 * size v)
                  (\<lambda>(mem, pl, m, ms). 3 * (size m + size_list size ms) + 2))
        (case_sum (\<lambda>(mem, pl, m, ms). 3 * (size m + size_list size ms) + 1)
                  (\<lambda>(mem, pl, vs). 3 * size_list size vs + 1)))") simp_all

definition printJsonObject :: "memory \<Rightarrow> 'n platform \<Rightarrow> 'n json_object \<Rightarrow> fault + string" where
  "printJsonObject mem pl Object =
     (case First Object of
        [] \<Rightarrow> Inr []
      | Member' # Next \<Rightarrow>
          if \<not> IsValid Object then Inr []
          else thenPrint (printJsonMember mem pl Member' Next) (Inr [CHR 0x0A]))"

section \<open>The words of the specification\<close>

text \<open>
  Depth-first precedence, as the specification words it: a member, then the list nested in
  it when its value is a \<^verbatim>\<open>MemberRef\<close>, then its next sibling. \<open>firstMatch\<close> is the value of
  the first member with the key in that order, and an Invalid-kind value when there is none.
\<close>

fun depthFirst :: "'n json_member list \<Rightarrow> 'n json_member list" where
  "depthFirst [] = []"
| "depthFirst (Member key (JSON_TYPE_MEMBER Child) # Next) =
     Member key (JSON_TYPE_MEMBER Child) # depthFirst Child @ depthFirst Next"
| "depthFirst (Member key v # Next) = Member key v # depthFirst Next"

definition firstMatch :: "'n json_member list \<Rightarrow> string \<Rightarrow> 'n json_value" where
  "firstMatch ms k =
     (case find (\<lambda>m. Key m = k) (depthFirst ms) of
        None \<Rightarrow> JSON_TYPE_INVALID
      | Some m \<Rightarrow> Value m)"

text \<open>
  No member of the tree has a value of kind Invalid: the insert operations and the parser
  build members of the six other kinds only.
\<close>

definition membersTyped :: "'n json_member list \<Rightarrow> bool" where
  "membersTyped ms \<longleftrightarrow> (\<forall>m \<in> set (depthFirst ms). Value m \<noteq> JSON_TYPE_INVALID)"

text \<open>
  The order of the results under a growing bound: \<open>None\<close> is below every result.
\<close>

definition fuel_le :: "'a option \<Rightarrow> 'a option \<Rightarrow> bool" where
  "fuel_le r r' \<longleftrightarrow> (r = None \<or> r = r')"

section \<open>The texts that the parser supports\<close>

text \<open>
  The round trip of parser and serializer is stated for the texts of a grammar. The grammar
  follows the tokenizer and the parser of the source: \<open>whiteSpace\<close> is a run of the characters
  that \<^verbatim>\<open>skipWhiteSpace\<close> passes; \<open>tokenText\<close> is the inside of a string token (no double
  quote, no zero byte, fewer than \<^verbatim>\<open>JSON_TOKEN_STRING_SIZE\<close> characters, so that it fits the
  token with its terminator); \<open>numberText\<close> is a run that the tokenizer reads as one number token
  (it starts with \<^verbatim>\<open>-\<close> or a digit and goes on with digits, \<^verbatim>\<open>.\<close>, \<^verbatim>\<open>e\<close> and \<^verbatim>\<open>-\<close>);
  \<open>follower\<close> is a character that ends a number or a literal.
\<close>

definition whiteSpace :: "string \<Rightarrow> bool" where
  "whiteSpace w \<longleftrightarrow> list_all isWhiteSpace w"

definition tokenText :: "string \<Rightarrow> bool" where
  "tokenText x \<longleftrightarrow>
     CHR 0x22 \<notin> set x \<and> CHR 0x00 \<notin> set x \<and> length x < JSON_TOKEN_STRING_SIZE"




definition notArray :: "'n json_value \<Rightarrow> bool" where
  "notArray v \<longleftrightarrow> (case v of JSON_TYPE_ARRAY vs \<Rightarrow> False | _ \<Rightarrow> True)"

text \<open>
  \<open>objectText num emptyArrays ms s\<close>: the text \<open>s\<close> is an object with the members \<open>ms\<close>, in this
  order. An object has at least one member; every element of an array is a string, a number, a
  boolean, null or an object (not an array); the array without elements is a text only when
  \<open>emptyArrays\<close> holds. \<open>num y t\<close> relates a number to the texts that stand for it.
\<close>

inductive objectText :: "('n \<Rightarrow> string \<Rightarrow> bool) \<Rightarrow> bool \<Rightarrow> 'n json_member list \<Rightarrow> string \<Rightarrow> bool"
  and membersText :: "('n \<Rightarrow> string \<Rightarrow> bool) \<Rightarrow> bool \<Rightarrow> 'n json_member list \<Rightarrow> string \<Rightarrow> bool"
  and valueText :: "('n \<Rightarrow> string \<Rightarrow> bool) \<Rightarrow> bool \<Rightarrow> 'n json_value \<Rightarrow> string \<Rightarrow> bool"
  and elementsText :: "('n \<Rightarrow> string \<Rightarrow> bool) \<Rightarrow> bool \<Rightarrow> 'n json_value list \<Rightarrow> string \<Rightarrow> bool"
  for num :: "'n \<Rightarrow> string \<Rightarrow> bool" and emptyArrays :: bool where
  object:
    "whiteSpace w \<Longrightarrow> membersText num emptyArrays ms s \<Longrightarrow>
     objectText num emptyArrays ms (w @ CHR ''{'' # s)"
| lastMember:
    "whiteSpace w1 \<Longrightarrow> tokenText k \<Longrightarrow> whiteSpace w2 \<Longrightarrow> valueText num emptyArrays v sv \<Longrightarrow>
     whiteSpace w3 \<Longrightarrow>
     membersText num emptyArrays [Member k v]
       (w1 @ CHR 0x22 # k @ CHR 0x22 # w2 @ CHR '':'' # sv @ w3 @ ''}'')"
| moreMembers:
    "whiteSpace w1 \<Longrightarrow> tokenText k \<Longrightarrow> whiteSpace w2 \<Longrightarrow> valueText num emptyArrays v sv \<Longrightarrow>
     whiteSpace w3 \<Longrightarrow> membersText num emptyArrays ms s \<Longrightarrow>
     membersText num emptyArrays (Member k v # ms)
       (w1 @ CHR 0x22 # k @ CHR 0x22 # w2 @ CHR '':'' # sv @ w3 @ CHR '','' # s)"
| stringValue:
    "whiteSpace w \<Longrightarrow> tokenText x \<Longrightarrow>
     valueText num emptyArrays (JSON_TYPE_STRING x) (w @ CHR 0x22 # x @ [CHR 0x22])"
| numberValue:
    "whiteSpace w \<Longrightarrow> num y t \<Longrightarrow> valueText num emptyArrays (JSON_TYPE_NUMBER y) (w @ t)"
| trueValue:
    "whiteSpace w \<Longrightarrow> valueText num emptyArrays (JSON_TYPE_BOOLEAN True) (w @ ''true'')"
| falseValue:
    "whiteSpace w \<Longrightarrow> valueText num emptyArrays (JSON_TYPE_BOOLEAN False) (w @ ''false'')"
| nullValue:
    "whiteSpace w \<Longrightarrow> valueText num emptyArrays JSON_TYPE_NULL (w @ ''null'')"
| objectValue:
    "objectText num emptyArrays ms s \<Longrightarrow> valueText num emptyArrays (JSON_TYPE_MEMBER ms) s"
| arrayValue:
    "whiteSpace w \<Longrightarrow> elementsText num emptyArrays vs s \<Longrightarrow>
     valueText num emptyArrays (JSON_TYPE_ARRAY vs) (w @ CHR ''['' # s)"
| emptyArray:
    "emptyArrays \<Longrightarrow> whiteSpace w \<Longrightarrow> whiteSpace w' \<Longrightarrow>
     valueText num emptyArrays (JSON_TYPE_ARRAY []) (w @ CHR ''['' # w' @ '']'')"
| lastElement:
    "valueText num emptyArrays v sv \<Longrightarrow> notArray v \<Longrightarrow> whiteSpace w \<Longrightarrow>
     elementsText num emptyArrays [v] (sv @ w @ '']'')"
| moreElements:
    "valueText num emptyArrays v sv \<Longrightarrow> notArray v \<Longrightarrow> whiteSpace w \<Longrightarrow>
     elementsText num emptyArrays vs s \<Longrightarrow>
     elementsText num emptyArrays (v # vs) (sv @ w @ CHR '','' # s)"











section \<open>Lemmas\<close>

lemma linkAtTail_append: "linkAtTail ms m = ms @ [m]"
  by (induction ms) simp_all

subsection \<open>The bound of the parser\<close>

declare parseStringToJson.simps [simp del] parseMembers.simps [simp del]
  arraySizePass.simps [simp del] arrayFillPass.simps [simp del]
  skipWhiteSpace.simps [simp del] scanString.simps [simp del] scanNumber.simps [simp del]


lemma fuel_le_refl: "fuel_le r r"
  by (simp add: fuel_le_def)

lemma fuel_le_None: "fuel_le None r"
  by (simp add: fuel_le_def)

lemma fuel_le_trans: "fuel_le a b \<Longrightarrow> fuel_le b c \<Longrightarrow> fuel_le a c"
  by (auto simp: fuel_le_def)

lemma fuel_le_andThen:
  "fuel_le r r' \<Longrightarrow> (\<And>x. fuel_le (f x) (f' x)) \<Longrightarrow> fuel_le (andThen r f) (andThen r' f')"
  by (auto simp: fuel_le_def andThen_def split: option.splits sum.splits)

lemma fuel_le_if:
  "(c \<Longrightarrow> fuel_le a a') \<Longrightarrow> (\<not> c \<Longrightarrow> fuel_le b b') \<Longrightarrow>
   fuel_le (if c then a else b) (if c then a' else b')"
  by simp

lemma fuel_le_case_prod:
  "(\<And>a b. fuel_le (f a b) (f' a b)) \<Longrightarrow> fuel_le (case_prod f p) (case_prod f' p)"
  by (cases p) simp

lemma fuel_le_case_step:
  "(\<And>x i. fuel_le (f x i) (f' x i)) \<Longrightarrow> (\<And>i. fuel_le (g i) (g' i)) \<Longrightarrow>
   fuel_le (case_step f g s) (case_step f' g' s)"
  by (cases s) simp_all

lemma fuel_le_case_token:
  "fuel_le a0 b0 \<Longrightarrow> fuel_le a1 b1 \<Longrightarrow> fuel_le a2 b2 \<Longrightarrow> fuel_le a3 b3 \<Longrightarrow> fuel_le a4 b4 \<Longrightarrow>
   fuel_le a5 b5 \<Longrightarrow> fuel_le a6 b6 \<Longrightarrow> fuel_le a7 b7 \<Longrightarrow> fuel_le a8 b8 \<Longrightarrow> fuel_le a9 b9 \<Longrightarrow>
   fuel_le a10 b10 \<Longrightarrow>
   fuel_le (case_json_token_type a0 a1 a2 a3 a4 a5 a6 a7 a8 a9 a10 t)
           (case_json_token_type b0 b1 b2 b3 b4 b5 b6 b7 b8 b9 b10 t)"
  by (cases t) simp_all

lemmas fuel_le_intros =
  fuel_le_refl fuel_le_andThen fuel_le_if fuel_le_case_prod fuel_le_case_step fuel_le_case_token

lemma fuel_le_Suc:
  "(\<forall>pl buf len i.
      fuel_le (parseStringToJson n pl buf len i)
        (parseStringToJson (Suc n) pl buf len i :: (fault + ('n json_object \<times> nat)) option)) \<and>
   (\<forall>pl buf len R i.
      fuel_le (parseMembers n pl buf len R i)
        (parseMembers (Suc n) pl buf len (R :: 'n json_object) i)) \<and>
   (\<forall>pl buf len t i s.
      fuel_le (arraySizePass n pl buf len t i s)
        (arraySizePass (Suc n) (pl :: 'n platform) buf len t i s)) \<and>
   (\<forall>pl buf len t i a.
      fuel_le (arrayFillPass n pl buf len t i a)
        (arrayFillPass (Suc n) (pl :: 'n platform) buf len t i a))"
proof (induction n)
  case 0
  show ?case
    by (simp add: fuel_le_None parseStringToJson.simps parseMembers.simps arraySizePass.simps
        arrayFillPass.simps)
next
  case (Suc n)
  have p: "\<And>pl buf len i.
      fuel_le (parseStringToJson n pl buf len i)
        (parseStringToJson (Suc n) pl buf len i :: (fault + ('n json_object \<times> nat)) option)"
    using Suc by simp
  have m: "\<And>pl buf len R i.
      fuel_le (parseMembers n pl buf len R i)
        (parseMembers (Suc n) pl buf len (R :: 'n json_object) i)"
    using Suc by simp
  have s: "\<And>pl buf len t i s.
      fuel_le (arraySizePass n pl buf len t i s)
        (arraySizePass (Suc n) (pl :: 'n platform) buf len t i s)"
    using Suc by simp
  have f: "\<And>pl buf len t i a.
      fuel_le (arrayFillPass n pl buf len t i a)
        (arrayFillPass (Suc n) (pl :: 'n platform) buf len t i a)"
    using Suc by simp
  have P: "fuel_le (parseStringToJson (Suc n) pl buf len i)
      (parseStringToJson (Suc (Suc n)) pl buf len i :: (fault + ('n json_object \<times> nat)) option)"
    for pl buf len i
    apply (subst parseStringToJson.simps(2))
    apply (subst parseStringToJson.simps(2))
    by (intro fuel_le_intros p m s f)
  have M: "fuel_le (parseMembers (Suc n) pl buf len R i)
      (parseMembers (Suc (Suc n)) pl buf len (R :: 'n json_object) i)"
    for pl buf len R i
    apply (subst parseMembers.simps(2))
    apply (subst parseMembers.simps(2))
    by (intro fuel_le_intros p m s f)
  have S: "fuel_le (arraySizePass (Suc n) pl buf len t i s)
      (arraySizePass (Suc (Suc n)) (pl :: 'n platform) buf len t i s)"
    for pl buf len t i s
    apply (subst arraySizePass.simps(2))
    apply (subst arraySizePass.simps(2))
    by (intro fuel_le_intros p m s f)
  have F: "fuel_le (arrayFillPass (Suc n) pl buf len t i a)
      (arrayFillPass (Suc (Suc n)) (pl :: 'n platform) buf len t i a)"
    for pl buf len t i a
    apply (subst arrayFillPass.simps(2))
    apply (subst arrayFillPass.simps(2))
    by (intro fuel_le_intros p m s f)
  show ?case using P M S F by simp
qed

lemma parseStringToJson_fuel_Suc:
  "fuel_le (parseStringToJson n pl buf len i) (parseStringToJson (Suc n) pl buf len i)"
  by (rule fuel_le_Suc[THEN conjunct1, THEN spec, THEN spec, THEN spec, THEN spec])




lemma parseStringToJson_fuel_add:
  "fuel_le (parseStringToJson n pl buf len i) (parseStringToJson (n + k) pl buf len i)"
proof (induction k)
  case 0
  show ?case by (simp add: fuel_le_refl)
next
  case (Suc k)
  with parseStringToJson_fuel_Suc[of "n + k" pl buf len i] show ?case
    by (auto intro: fuel_le_trans)
qed




lemma parseReturnsI:
  assumes "parseStringToJson n pl buf len i = Some r"
  shows "parseReturns pl buf len i r"
proof -
  have "parseStringToJson (n + k) pl buf len i = Some r" for k
    using parseStringToJson_fuel_add[of n pl buf len i k] assms by (simp add: fuel_le_def)
  then show ?thesis unfolding parseReturns_def by blast
qed

lemma parseReturns_unique:
  "parseReturns pl buf len i r \<Longrightarrow> parseReturns pl buf len i r' \<Longrightarrow> r = r'"
proof -
  assume "parseReturns pl buf len i r" "parseReturns pl buf len i r'"
  then obtain n n' where
    a: "\<And>k. parseStringToJson (n + k) pl buf len i = Some r" and
    b: "\<And>k. parseStringToJson (n' + k) pl buf len i = Some r'"
    unfolding parseReturns_def by blast
  from a[of n'] b[of n] show ?thesis by (simp add: add.commute)
qed

lemma parseStringToJson_numeral:
  "parseStringToJson (numeral v) = parseStringToJson (Suc (pred_numeral v))"
  by (simp add: numeral_eq_Suc)
lemma parseMembers_numeral:
  "parseMembers (numeral v) = parseMembers (Suc (pred_numeral v))"
  by (simp add: numeral_eq_Suc)
lemma arraySizePass_numeral:
  "arraySizePass (numeral v) = arraySizePass (Suc (pred_numeral v))"
  by (simp add: numeral_eq_Suc)
lemma arrayFillPass_numeral:
  "arrayFillPass (numeral v) = arrayFillPass (Suc (pred_numeral v))"
  by (simp add: numeral_eq_Suc)

lemma andThen_simps:
  "andThen None f = None"
  "andThen (Some (Inl e)) f = Some (Inl e)"
  "andThen (Some (Inr x)) f = f x"
  by (simp_all add: andThen_def)

lemma andThen_cong_weak: "r = r' \<Longrightarrow> andThen r f = andThen r' f"
  by simp

lemmas parser_eval =
  parseStringToJson.simps parseMembers.simps arraySizePass.simps arrayFillPass.simps
  parseStringToJson_numeral parseMembers_numeral arraySizePass_numeral arrayFillPass_numeral
  skipWhiteSpace.simps scanString.simps scanNumber.simps
  andThen_simps token_def returns_def tokenizeString_def copyToToken_def literalToken_def
  JSON_TOKEN_STRING_SIZE_def isWhiteSpace_def isNumber_def new_json_token_def new_json_object_def
  addJsonMember_String_def addJsonMember_Number_def addJsonMember_Boolean_def
  addJsonMember_Child_def addJsonMember_Object_def addJsonMember_Array_def addJsonMemberNull_def
  appendMember_def Let_def

lemmas parser_cong =
  andThen_cong_weak json_token_type.case_cong_weak step.case_cong_weak prod.case_cong_weak
  sum.case_cong_weak option.case_cong_weak

subsection \<open>The parser on \<open>ZeroMemory\<close>\<close>

declare parseStringToJsonOn.simps [simp del] parseMembersOn.simps [simp del]
  arraySizePassOn.simps [simp del] arrayFillPassOn.simps [simp del]






lemma parseStringToJsonOn_numeral:
  "parseStringToJsonOn (numeral v) = parseStringToJsonOn (Suc (pred_numeral v))"
  by (simp add: numeral_eq_Suc)
lemma parseMembersOn_numeral:
  "parseMembersOn (numeral v) = parseMembersOn (Suc (pred_numeral v))"
  by (simp add: numeral_eq_Suc)
lemma arraySizePassOn_numeral:
  "arraySizePassOn (numeral v) = arraySizePassOn (Suc (pred_numeral v))"
  by (simp add: numeral_eq_Suc)
lemma arrayFillPassOn_numeral:
  "arrayFillPassOn (numeral v) = arrayFillPassOn (Suc (pred_numeral v))"
  by (simp add: numeral_eq_Suc)

lemmas parserOn_eval =
  parseStringToJsonOn.simps parseMembersOn.simps arraySizePassOn.simps arrayFillPassOn.simps
  parseStringToJsonOn_numeral parseMembersOn_numeral arraySizePassOn_numeral
  arrayFillPassOn_numeral
  skipWhiteSpace.simps scanString.simps scanNumber.simps
  andThen_simps token_def returns_def tokenizeString_def copyToToken_def literalToken_def
  JSON_TOKEN_STRING_SIZE_def isWhiteSpace_def isNumber_def new_json_token_def new_json_object_def
  addJsonMember_StringOn_def addJsonMember_NumberOn_def addJsonMember_BooleanOn_def
  addJsonMember_ChildOn_def addJsonMember_ObjectOn_def addJsonMember_ArrayOn_def
  addJsonMemberNullOn_def appendMemberOn_def Let_def



section \<open>The tokenizer on a part of the buffer\<close>

lemma drop_eq_Cons:
  assumes "drop i buf = x # xs"
  shows "i < length buf" and "buf ! i = x" and "drop (i + 1) buf = xs"
proof -
  show a: "i < length buf" using assms by (cases "i < length buf") simp_all
  from Cons_nth_drop_Suc[OF a] assms show "buf ! i = x" and "drop (i + 1) buf = xs" by simp_all
qed

lemma skipWhiteSpace_drop:
  "drop i buf = ws @ c # rest \<Longrightarrow> \<forall>ch \<in> set ws. isWhiteSpace ch \<Longrightarrow> \<not> isWhiteSpace c \<Longrightarrow>
   skipWhiteSpace buf i = Inr (i + length ws)"
proof (induction ws arbitrary: i)
  case Nil
  then show ?case using drop_eq_Cons[of i buf c rest] by (subst skipWhiteSpace.simps) simp
next
  case (Cons w ws)
  from Cons.prems(1) have d: "drop i buf = w # (ws @ c # rest)" by simp
  note e = drop_eq_Cons[OF d]
  have "skipWhiteSpace buf (i + 1) = Inr (i + 1 + length ws)"
    using Cons.IH[OF e(3)] Cons.prems by simp
  then show ?case using e Cons.prems by (subst skipWhiteSpace.simps) simp
qed

lemma scanString_drop:
  "drop i buf = body @ c # rest \<Longrightarrow> CHR 0x22 \<notin> set body \<Longrightarrow> CHR 0x00 \<notin> set body \<Longrightarrow>
   c = CHR 0x22 \<or> c = CHR 0x00 \<Longrightarrow> scanString buf i = Inr (i + length body)"
proof (induction body arbitrary: i)
  case Nil
  then show ?case using drop_eq_Cons[of i buf c rest] by (subst scanString.simps) auto
next
  case (Cons b body)
  from Cons.prems(1) have d: "drop i buf = b # (body @ c # rest)" by simp
  note e = drop_eq_Cons[OF d]
  have "scanString buf (i + 1) = Inr (i + 1 + length body)"
    using Cons.IH[OF e(3)] Cons.prems by simp
  then show ?case using e Cons.prems by (subst scanString.simps) auto
qed

lemma scanString_end:
  "drop i buf = body \<Longrightarrow> CHR 0x22 \<notin> set body \<Longrightarrow> CHR 0x00 \<notin> set body \<Longrightarrow>
   scanString buf i = Inl OutOfBounds"
proof (induction body arbitrary: i)
  case Nil
  then show ?case by (subst scanString.simps) simp
next
  case (Cons b body)
  note e = drop_eq_Cons[OF Cons.prems(1)]
  have "scanString buf (i + 1) = Inl OutOfBounds"
    using Cons.IH[OF e(3)] Cons.prems by simp
  then show ?case using e Cons.prems by (subst scanString.simps) auto
qed

lemma drop_add_append: "drop i buf = xs @ ys \<Longrightarrow> drop (i + length xs) buf = ys"
  by (metis add.commute append_eq_conv_conj drop_drop)

lemma isWhiteSpace_quote: "\<not> isWhiteSpace (CHR 0x22)"
  by (simp add: isWhiteSpace_def)

subsection \<open>Lookup and depth-first order\<close>

lemma find_app: "find P (xs @ ys) = (case find P xs of None \<Rightarrow> find P ys | Some x \<Rightarrow> Some x)"
  by (induction xs) simp_all

lemma firstMatch_invalid:
  "membersTyped ms \<Longrightarrow> firstMatch ms k = JSON_TYPE_INVALID \<longleftrightarrow> find (\<lambda>m. Key m = k) (depthFirst ms) = None"
  by (auto simp: firstMatch_def membersTyped_def split: option.splits dest: find_Some_iff[THEN iffD1])

lemma getJsonValue_firstMatch:
  "membersTyped ms \<Longrightarrow> getJsonValue ms k = firstMatch ms k"
proof (induction ms k rule: getJsonValue.induct)
  case (1 k)
  then show ?case by (simp add: firstMatch_def)
next
  case (2 key Child Next k)
  have tc: "membersTyped Child" and tn: "membersTyped Next"
    using 2(3) by (auto simp: membersTyped_def)
  show ?case
  proof (cases "key = k")
    case True
    then show ?thesis by (simp add: firstMatch_def)
  next
    case False
    have c: "getJsonValue Child k = firstMatch Child k" using 2(1)[OF False tc] .
    show ?thesis
    proof (cases "find (\<lambda>m. Key m = k) (depthFirst Child)")
      case None
      then have "firstMatch Child k = JSON_TYPE_INVALID" by (simp add: firstMatch_def)
      with c have ci: "getJsonValue Child k = JSON_TYPE_INVALID" by simp
      have "getJsonValue Next k = firstMatch Next k"
        using 2(2)[OF False refl _ tn] ci by simp
      with False None ci show ?thesis by (simp add: firstMatch_def find_app)
    next
      case (Some m)
      then have "firstMatch Child k \<noteq> JSON_TYPE_INVALID"
        using firstMatch_invalid[OF tc, of k] by simp
      with c False Some show ?thesis by (simp add: firstMatch_def find_app Let_def)
    qed
  qed
qed (auto simp: firstMatch_def membersTyped_def)


section \<open>The tokens of a text\<close>




















section \<open>More fuel, and one member of an object\<close>










section \<open>The two passes over an array\<close>








section \<open>The parser on the texts of the grammar\<close>





















section \<open>The serializer on the values of the grammar\<close>











subsection \<open>Numbers in closed examples\<close>

lemmas number_eval =
  decimalValue_def naturalValue_def digitValue_def isFractionalPartZero_def modf_def
  castToInt32_def printf_d_def printf_4lf_def roundToEven_def decimalDigits.simps Let_def

section \<open>The claims\<close>

subsection \<open>C1: indexing an array\<close>

text \<open>
  C1, as the specification states it: \<^verbatim>\<open>getJsonValueArrayMember\<close> returns the element stored at
  the index whatever its kind, and at index 1 of the array of \<^verbatim>\<open>{"pairs":[1,2,3]}\<close> it yields the
  number 2. The source does not: it reads the union of the element as the pointer \<^verbatim>\<open>Child\<close> and
  dereferences it, and its return type is \<^verbatim>\<open>json_member\<close>. On the parse of
  \<^verbatim>\<open>{"pairs":[1,2,3]}\<close> the call at index 1 reads \<^verbatim>\<open>Child\<close> of a number.
\<close>

theorem getJsonValueArrayMember_scalar_counterexample:
  \<open>parseStringToJson 20 textPlatform ''{"pairs":[1,2,3]}'' 17 0 =
     Some (Inr (\<lparr>First = [Member ''pairs'' (JSON_TYPE_ARRAY
        [JSON_TYPE_NUMBER ''1'', JSON_TYPE_NUMBER ''2'', JSON_TYPE_NUMBER ''3''])],
        IsValid = True\<rparr>, 17)) \<and>
   getJsonValueArrayMember
     (getJsonValue_object
        \<lparr>First = [Member ''pairs'' (JSON_TYPE_ARRAY
           [JSON_TYPE_NUMBER ''1'', JSON_TYPE_NUMBER ''2'', JSON_TYPE_NUMBER ''3''])],
         IsValid = True\<rparr> ''pairs'') 1 = Inl WrongUnionMember\<close>
  by (simp add: parser_eval textPlatform_def getJsonValue_object_def getJsonValueArrayMember_def
      del: Suc_numeral cong: parser_cong)

text \<open>
  C1, amended: for an array and an index in range whose element is of kind
  \<^verbatim>\<open>JSON_TYPE_MEMBER\<close> with a member list that is not null, \<^verbatim>\<open>getJsonValueArrayMember\<close> returns a
  copy of the first member of that list (its key, its value and its link to the next member).
  The parse of \<^verbatim>\<open>{"pairs":[1,2,3]}\<close> returns an object whose member \<^verbatim>\<open>pairs\<close> is an array of
  size 3 that stores the number \<^verbatim>\<open>atof("2")\<close> at index 1; \<^verbatim>\<open>getJsonValueArrayMember\<close> does not
  return that element.
\<close>

theorem getJsonValueArrayMember_member:
  \<open>(0 \<le> Index \<and> Index < int (length Head) \<and> Head ! nat Index = JSON_TYPE_MEMBER (m # Next) \<longrightarrow>
      getJsonValueArrayMember (JSON_TYPE_ARRAY Head) Index =
        Inr \<lparr>MemberKey = Some (Key m), MemberValue = Value m, MemberNext = Next\<rparr>) \<and>
    (let root = \<lparr>First = [Member ''pairs'' (JSON_TYPE_ARRAY
               [JSON_TYPE_NUMBER (atof pl ''1''), JSON_TYPE_NUMBER (atof pl ''2''),
                JSON_TYPE_NUMBER (atof pl ''3'')])], IsValid = True\<rparr>
     in parseReturns pl ''{"pairs":[1,2,3]}'' 17 0 (Inr (root, 17)) \<and>
        getJsonValueArraySize (getJsonValue_object root ''pairs'') = 3 \<and>
        getJsonValue_object root ''pairs'' =
          JSON_TYPE_ARRAY [JSON_TYPE_NUMBER (atof pl ''1''), JSON_TYPE_NUMBER (atof pl ''2''),
                           JSON_TYPE_NUMBER (atof pl ''3'')] \<and>
        getJsonValueArrayMember (getJsonValue_object root ''pairs'') 1 = Inl WrongUnionMember)\<close>
proof -
  have \<open>parseStringToJson 20 pl ''{"pairs":[1,2,3]}'' 17 0 =
     Some (Inr (\<lparr>First = [Member ''pairs'' (JSON_TYPE_ARRAY
               [JSON_TYPE_NUMBER (atof pl ''1''), JSON_TYPE_NUMBER (atof pl ''2''),
                JSON_TYPE_NUMBER (atof pl ''3'')])], IsValid = True\<rparr>, 17))\<close>
    by (simp add: parser_eval del: Suc_numeral cong: parser_cong)
  from parseReturnsI[OF this] show ?thesis
    by (simp add: getJsonValue_object_def getJsonValueArrayMember_def getJsonValueArraySize_def)
qed

theorem getJsonValueArrayMember_member_witness:
  \<open>getJsonValueArrayMember
      (JSON_TYPE_ARRAY [JSON_TYPE_NUMBER ''0'',
         JSON_TYPE_MEMBER [Member ''x0'' (JSON_TYPE_NUMBER ''1''), Member ''y0'' JSON_TYPE_NULL]]) 1 =
    Inr \<lparr>MemberKey = Some ''x0'', MemberValue = JSON_TYPE_NUMBER ''1'',
         MemberNext = [Member ''y0'' JSON_TYPE_NULL]\<rparr>\<close>
  using getJsonValueArrayMember_member[of 1
      "[JSON_TYPE_NUMBER ''0'',
         JSON_TYPE_MEMBER [Member ''x0'' (JSON_TYPE_NUMBER ''1''), Member ''y0'' JSON_TYPE_NULL]]"
      "Member ''x0'' (JSON_TYPE_NUMBER ''1'')" "[Member ''y0'' JSON_TYPE_NULL]" textPlatform]
  by simp

subsection \<open>C2: an object that ends after a comma\<close>

text \<open>
  C2 says that parsing \<^verbatim>\<open>{"a":1,\<close>, where the input is exhausted after the comma, returns an
  object whose validity flag is false. The outer loop of \<^verbatim>\<open>parseStringToJson\<close> tests
  \<^verbatim>\<open>BufferIndex < InputJsonFileSize\<close>; the loop over the members does not. After the comma it
  calls \<^verbatim>\<open>tokenizeString\<close> with \<^verbatim>\<open>BufferIndex\<close> 7, the declared length, and the byte at index 7
  decides: in the buffer of seven bytes that \<^verbatim>\<open>main\<close> allocates the read is outside the buffer;
  where the bytes \<^verbatim>\<open>"c":true}\<close> follow, the parse returns a valid object with the members \<^verbatim>\<open>a\<close>
  and \<^verbatim>\<open>c\<close>; only where a zero byte follows is the flag false, with the member \<^verbatim>\<open>a\<close> attached.
\<close>

theorem parseStringToJson_trailing_comma_divergence:
  \<open>parseReturns pl ''{"a":1,'' 7 0 (Inl OutOfBounds) \<and>
   parseReturns pl (''{"a":1,'' @ ''"c":true}'') 7 0
     (Inr (\<lparr>First = [Member ''a'' (JSON_TYPE_NUMBER (atof pl ''1'')),
                     Member ''c'' (JSON_TYPE_BOOLEAN True)], IsValid = True\<rparr>, 16)) \<and>
   parseReturns pl (''{"a":1,'' @ CHR 0x00 # rest) 7 0
     (Inr (\<lparr>First = [Member ''a'' (JSON_TYPE_NUMBER (atof pl ''1''))], IsValid = False\<rparr>, 7))\<close>
proof -
  have a: \<open>parseStringToJson 20 pl ''{"a":1,'' 7 0 = Some (Inl OutOfBounds)\<close>
    by (simp add: parser_eval del: Suc_numeral cong: parser_cong)
  have b: \<open>parseStringToJson 20 pl (''{"a":1,'' @ ''"c":true}'') 7 0 =
     Some (Inr (\<lparr>First = [Member ''a'' (JSON_TYPE_NUMBER (atof pl ''1'')),
                     Member ''c'' (JSON_TYPE_BOOLEAN True)], IsValid = True\<rparr>, 16))\<close>
    by (simp add: parser_eval del: Suc_numeral cong: parser_cong)
  have c: \<open>parseStringToJson 20 pl (''{"a":1,'' @ CHR 0x00 # rest) 7 0 =
     Some (Inr (\<lparr>First = [Member ''a'' (JSON_TYPE_NUMBER (atof pl ''1''))], IsValid = False\<rparr>, 7))\<close>
    by (simp add: parser_eval del: Suc_numeral cong: parser_cong)
  from parseReturnsI[OF a] parseReturnsI[OF b] parseReturnsI[OF c] show ?thesis by simp
qed

subsection \<open>C4: the precedence of lookup\<close>

text \<open>
  C4: \<^verbatim>\<open>getJsonValue\<close> returns the value of the first member with the key in depth-first order
  (a member, then the list nested in it, then its next sibling), for every tree whose members
  have a kind other than Invalid and every key; and on the parse of
  \<^verbatim>\<open>{"a":{"b":1},"b":2}\<close> the lookup of \<^verbatim>\<open>b\<close> returns the nested number, \<^verbatim>\<open>atof("1")\<close>.
\<close>

theorem getJsonValue_depth_first:
  \<open>(membersTyped ms \<longrightarrow> getJsonValue ms k = firstMatch ms k) \<and>
    (let root = \<lparr>First = [Member ''a'' (JSON_TYPE_MEMBER [Member ''b'' (JSON_TYPE_NUMBER (atof pl ''1''))]),
                          Member ''b'' (JSON_TYPE_NUMBER (atof pl ''2''))], IsValid = True\<rparr>
     in parseReturns pl ''{"a":{"b":1},"b":2}'' 19 0 (Inr (root, 19)) \<and>
        getJsonValue_object root ''b'' = JSON_TYPE_NUMBER (atof pl ''1''))\<close>
proof -
  have \<open>parseStringToJson 20 pl ''{"a":{"b":1},"b":2}'' 19 0 =
     Some (Inr (\<lparr>First = [Member ''a'' (JSON_TYPE_MEMBER [Member ''b'' (JSON_TYPE_NUMBER (atof pl ''1''))]),
                          Member ''b'' (JSON_TYPE_NUMBER (atof pl ''2''))], IsValid = True\<rparr>, 19))\<close>
    by (simp add: parser_eval del: Suc_numeral cong: parser_cong)
  from parseReturnsI[OF this] getJsonValue_firstMatch[of ms k] show ?thesis
    by (simp add: getJsonValue_object_def)
qed

theorem getJsonValue_depth_first_witness:
  \<open>membersTyped [Member ''a'' (JSON_TYPE_MEMBER [Member ''b'' (JSON_TYPE_NUMBER ''1'')]),
                  Member ''b'' (JSON_TYPE_NUMBER ''2'')] \<and>
    getJsonValue [Member ''a'' (JSON_TYPE_MEMBER [Member ''b'' (JSON_TYPE_NUMBER ''1'')]),
                  Member ''b'' (JSON_TYPE_NUMBER ''2'')] ''b'' = JSON_TYPE_NUMBER ''1'' \<and>
    firstMatch [Member ''a'' (JSON_TYPE_MEMBER [Member ''b'' (JSON_TYPE_NUMBER ''1'')]),
                  Member ''b'' (JSON_TYPE_NUMBER ''2'')] ''b'' = JSON_TYPE_NUMBER ''1''\<close>
  using getJsonValue_depth_first[of
      "[Member ''a'' (JSON_TYPE_MEMBER [Member ''b'' (JSON_TYPE_NUMBER ''1'')]),
        Member ''b'' (JSON_TYPE_NUMBER ''2'')]" "''b''" textPlatform]
  by (simp add: membersTyped_def firstMatch_def)

subsection \<open>C5: the empty key\<close>

text \<open>
  C5 says that every insert operation called with an empty key string adds nothing. The guard
  of the source, \<^verbatim>\<open>Key == '\0'\<close>, is true of the null pointer only, so the operations called
  with a pointer to the empty string append a member whose key is empty: the member list grows
  by that member. Only the null pointer leaves the object as it is.
\<close>

theorem addJsonMember_empty_key_appends:
  "First (addJsonMember_String obj (Some []) s) = First obj @ [Member [] (JSON_TYPE_STRING s)] \<and>
   First (addJsonMember_Number obj (Some []) x) = First obj @ [Member [] (JSON_TYPE_NUMBER x)] \<and>
   First (addJsonMember_Boolean obj (Some []) b) = First obj @ [Member [] (JSON_TYPE_BOOLEAN b)] \<and>
   First (addJsonMemberNull obj (Some [])) = First obj @ [Member [] JSON_TYPE_NULL] \<and>
   First (addJsonMember_Child obj (Some []) (c # cs)) =
     First obj @ [Member [] (JSON_TYPE_MEMBER (c # cs))] \<and>
   First (addJsonMember_Array obj (Some []) (Some vs) (length vs)) =
     First obj @ [Member [] (JSON_TYPE_ARRAY vs)] \<and>
   addJsonMember_String new_json_object (Some []) ''x'' =
     \<lparr>First = [Member [] (JSON_TYPE_STRING ''x'')], IsValid = True\<rparr> \<and>
   addJsonMember_String obj None s = obj"
  by (simp add: addJsonMember_String_def addJsonMember_Number_def addJsonMember_Boolean_def
      addJsonMemberNull_def addJsonMember_Child_def addJsonMember_Array_def appendMember_def
      linkAtTail_append new_json_object_def)

subsection \<open>C10: destroying an empty object\<close>

text \<open>
  C10: \<^verbatim>\<open>destroyJsonMember\<close> dereferences the null pointer, and \<^verbatim>\<open>destroyJsonObject\<close> of an object
  whose \<^verbatim>\<open>First\<close> is null hands it that pointer: destroying an object is defined only when its
  member list is not empty.
\<close>

theorem destroyJsonObject_empty:
  "destroyJsonMember [] = Inl NullDereference \<and>
   (First obj = [] \<longrightarrow> destroyJsonObject (Some obj) = Inl NullDereference)"
  by (simp add: destroyJsonObject_def)

theorem destroyJsonObject_empty_witness:
  "First (new_json_object :: string json_object) = [] \<and>
   destroyJsonObject (Some (new_json_object :: string json_object)) = Inl NullDereference"
  using destroyJsonObject_empty[of "new_json_object :: string json_object"]
  by (simp add: new_json_object_def)

subsection \<open>C6: what destroy frees\<close>

text \<open>
  C6 says that destroy frees every reachable member, the members held by the object elements
  of arrays included, and the string payloads. \<^verbatim>\<open>destroyJsonMember\<close> frees the key and the
  member, and descends into a value of kind \<^verbatim>\<open>JSON_TYPE_MEMBER\<close> only: for a member that holds
  an array, whatever its elements are, and for a member that holds a string, the calls of
  \<^verbatim>\<open>free\<close> are these two. On the parse of \<^verbatim>\<open>{"s":"x","a":[{"b":1}]}\<close> the member \<^verbatim>\<open>b\<close> is never
  freed.
\<close>

theorem destroyJsonMember_leaves_array_and_string:
  \<open>destroyJsonMember [Member key (JSON_TYPE_ARRAY elems)] =
     Inr [FreeKey key, FreeMember (Member key (JSON_TYPE_ARRAY elems))] \<and>
   destroyJsonMember [Member key (JSON_TYPE_STRING s)] =
     Inr [FreeKey key, FreeMember (Member key (JSON_TYPE_STRING s))] \<and>
   (let root = \<lparr>First = [Member ''s'' (JSON_TYPE_STRING ''x''),
                  Member ''a'' (JSON_TYPE_ARRAY
                    [JSON_TYPE_MEMBER [Member ''b'' (JSON_TYPE_NUMBER (atof pl ''1''))]])],
                IsValid = True\<rparr>
    in parseReturns pl ''{"s":"x","a":[{"b":1}]}'' 23 0 (Inr (root, 23)) \<and>
       destroyJsonObject (Some root) =
         Inr (Some (root\<lparr>First := []\<rparr>),
              [FreeKey ''s'', FreeMember (Member ''s'' (JSON_TYPE_STRING ''x'')),
               FreeKey ''a'', FreeMember (Member ''a'' (JSON_TYPE_ARRAY
                 [JSON_TYPE_MEMBER [Member ''b'' (JSON_TYPE_NUMBER (atof pl ''1''))]]))]))\<close>
proof -
  have \<open>parseStringToJson 20 pl ''{"s":"x","a":[{"b":1}]}'' 23 0 =
     Some (Inr (\<lparr>First = [Member ''s'' (JSON_TYPE_STRING ''x''),
                  Member ''a'' (JSON_TYPE_ARRAY
                    [JSON_TYPE_MEMBER [Member ''b'' (JSON_TYPE_NUMBER (atof pl ''1''))]])],
                IsValid = True\<rparr>, 23))\<close>
    by (simp add: parser_eval del: Suc_numeral cong: parser_cong)
  from parseReturnsI[OF this] show ?thesis
    by (simp add: destroyJsonObject_def)
qed

subsection \<open>C7: deletion by key\<close>

text \<open>
  C7 says that \<^verbatim>\<open>deleteJsonMember\<close> deletes the member that lookup finds, frees exactly that
  member, and returns true if and only if it deleted one. In the source: on the empty object
  the result is true and nothing is deleted; deleting the head \<^verbatim>\<open>a\<close> of \<^verbatim>\<open>a, b\<close> frees \<^verbatim>\<open>b\<close> too,
  while \<^verbatim>\<open>First\<close> is set to \<^verbatim>\<open>b\<close>; where lookup of \<^verbatim>\<open>b\<close> finds the member nested in \<^verbatim>\<open>a\<close>,
  deletion removes the sibling of \<^verbatim>\<open>a\<close> instead; and the list nested in the head member is
  not searched at all.
\<close>

theorem deleteJsonMember_divergence:
  "deleteJsonMember_object new_json_object k = Inr (True, new_json_object, []) \<and>
   deleteJsonMember_object
       \<lparr>First = [Member ''a'' (JSON_TYPE_NUMBER x), Member ''b'' (JSON_TYPE_NUMBER y)],
        IsValid = True\<rparr> ''a'' =
     Inr (True,
          \<lparr>First = [Member ''b'' (JSON_TYPE_NUMBER y)], IsValid = True\<rparr>,
          [FreeKey ''a'', FreeMember (Member ''a'' (JSON_TYPE_NUMBER x)),
           FreeKey ''b'', FreeMember (Member ''b'' (JSON_TYPE_NUMBER y))]) \<and>
   getJsonValue_object
       \<lparr>First = [Member ''a'' (JSON_TYPE_MEMBER [Member ''b'' (JSON_TYPE_NUMBER x)]),
                 Member ''b'' (JSON_TYPE_NUMBER y)],
        IsValid = True\<rparr> ''b'' = JSON_TYPE_NUMBER x \<and>
   deleteJsonMember_object
       \<lparr>First = [Member ''a'' (JSON_TYPE_MEMBER [Member ''b'' (JSON_TYPE_NUMBER x)]),
                 Member ''b'' (JSON_TYPE_NUMBER y)],
        IsValid = True\<rparr> ''b'' =
     Inr (True,
          \<lparr>First = [Member ''a'' (JSON_TYPE_MEMBER [Member ''b'' (JSON_TYPE_NUMBER x)])],
           IsValid = True\<rparr>,
          [FreeKey ''b'', FreeMember (Member ''b'' (JSON_TYPE_NUMBER y))]) \<and>
   deleteJsonMember_object
       \<lparr>First = [Member ''a'' (JSON_TYPE_MEMBER [Member ''b'' (JSON_TYPE_NUMBER x)])],
        IsValid = True\<rparr> ''b'' =
     Inr (False,
          \<lparr>First = [Member ''a'' (JSON_TYPE_MEMBER [Member ''b'' (JSON_TYPE_NUMBER x)])],
           IsValid = True\<rparr>, [])"
  by (simp add: deleteJsonMember_object_def new_json_object_def getJsonValue_object_def)

subsection \<open>C8: reads and the declared length\<close>

text \<open>
  C8 says that no read is at or beyond the declared length. With the seven bytes
  \<^verbatim>\<open>{"a":1,\<close> and the declared length 7, \<^verbatim>\<open>parseStringToJson\<close> calls \<^verbatim>\<open>tokenizeString\<close> with
  \<^verbatim>\<open>BufferIndex\<close> 7, which reads \<^verbatim>\<open>InputJsonBuffer[7]\<close>: outside the buffer. With the same declared
  length and a buffer that goes on, the bytes after the declared length decide the result.
\<close>

theorem parseStringToJson_reads_past_length:
  \<open>tokenizeString ''{"a":1,'' 7 = Inl OutOfBounds \<and>
   parseReturns pl ''{"a":1,'' 7 0 (Inl OutOfBounds) \<and>
   parseReturns pl ''{"a":1,"b":2}'' 7 0
     (Inr (\<lparr>First = [Member ''a'' (JSON_TYPE_NUMBER (atof pl ''1'')),
                     Member ''b'' (JSON_TYPE_NUMBER (atof pl ''2''))], IsValid = True\<rparr>, 13))\<close>
proof -
  have a: \<open>parseStringToJson 20 pl ''{"a":1,'' 7 0 = Some (Inl OutOfBounds)\<close>
    by (simp add: parser_eval del: Suc_numeral cong: parser_cong)
  have b: \<open>parseStringToJson 20 pl ''{"a":1,"b":2}'' 7 0 =
     Some (Inr (\<lparr>First = [Member ''a'' (JSON_TYPE_NUMBER (atof pl ''1'')),
                     Member ''b'' (JSON_TYPE_NUMBER (atof pl ''2''))], IsValid = True\<rparr>, 13))\<close>
    by (simp add: parser_eval del: Suc_numeral cong: parser_cong)
  have c: \<open>tokenizeString ''{"a":1,'' 7 = Inl OutOfBounds\<close>
    by (simp add: parser_eval)
  from parseReturnsI[OF a] parseReturnsI[OF b] c show ?thesis by simp
qed

subsection \<open>C9: string tokens\<close>

text \<open>
  C9 says that a string whose opening quote is not followed by a closing quote before the end
  of the data gives a token of kind Invalid, and that a string that closes gives a token whose
  text is the bytes between the quotes. \<^verbatim>\<open>tokenizeString\<close> runs over the bytes after the opening
  quote up to a quote or a zero byte. Where the bytes end before either, it reads outside the
  buffer. At a zero byte the token is of type \<^verbatim>\<open>JSON_TOKEN_INVALID\<close> and \<^verbatim>\<open>BufferIndex\<close> stays at
  that byte. At a quote, \<^verbatim>\<open>strncpy\<close> copies the bytes into the 64 bytes of \<^verbatim>\<open>Result.String\<close> and a
  zero byte is written after them, with no test of the count: fewer than 64 bytes give a
  token of type \<^verbatim>\<open>JSON_TOKEN_STRING\<close> whose text is the run, byte for byte; 64 bytes or more are
  written beyond the end of \<^verbatim>\<open>Result.String\<close>.
\<close>

theorem tokenizeString_string:
  assumes buf: "drop i buf = ws @ CHR 0x22 # body @ tail"
    and ws: "\<forall>ch \<in> set ws. isWhiteSpace ch"
    and body: "CHR 0x22 \<notin> set body" "CHR 0x00 \<notin> set body"
  shows "(tail = [] \<longrightarrow> tokenizeString buf i = Inl OutOfBounds) \<and>
         (tail \<noteq> [] \<and> hd tail = CHR 0x00 \<longrightarrow>
            tokenizeString buf i =
              Inr (Token JSON_TOKEN_INVALID [], i + length ws + 1 + length body)) \<and>
         (tail \<noteq> [] \<and> hd tail = CHR 0x22 \<and> length body < JSON_TOKEN_STRING_SIZE \<longrightarrow>
            tokenizeString buf i =
              Inr (Token JSON_TOKEN_STRING body, i + length ws + 1 + length body + 1)) \<and>
         (tail \<noteq> [] \<and> hd tail = CHR 0x22 \<and> JSON_TOKEN_STRING_SIZE \<le> length body \<longrightarrow>
            tokenizeString buf i = Inl TokenOverflow)"
proof -
  let ?j = "i + length ws"
  have buf': "drop i buf = ws @ CHR 0x22 # (body @ tail)" using buf by simp
  have skip: "skipWhiteSpace buf i = Inr ?j"
    using skipWhiteSpace_drop[OF buf' ws isWhiteSpace_quote] .
  have dj: "drop ?j buf = CHR 0x22 # body @ tail"
    using drop_add_append[OF buf] .
  note q = drop_eq_Cons[OF dj]
  have db: "drop (?j + 1) buf = body @ tail" using q(3) .
  have tk: "take (length body) (drop (?j + 1) buf) = body" using db by simp
  have ended: "tokenizeString buf i = Inl OutOfBounds" if "tail = []"
  proof -
    from db that have "drop (?j + 1) buf = body" by simp
    from scanString_end[OF this body] show ?thesis
      using skip q(2) by (simp add: tokenizeString_def Let_def)
  qed
  have closed:
    "tokenizeString buf i =
       (if c = CHR 0x00 then Inr (new_json_token, ?j + 1 + length body)
        else copyToToken JSON_TOKEN_STRING buf (?j + 1) (length body) (?j + 1 + length body + 1))"
    if t: "tail = c # rest" and c: "c = CHR 0x22 \<or> c = CHR 0x00" for c rest
  proof -
    from db t have db': "drop (?j + 1) buf = body @ c # rest" by simp
    have dc: "drop (?j + 1 + length body) buf = c # rest"
      using drop_add_append[OF db'] .
    note r = drop_eq_Cons[OF dc]
    have "scanString buf (?j + 1) = Inr (?j + 1 + length body)"
      using scanString_drop[OF db' body c] .
    then show ?thesis
      using skip q(2) r(2) by (simp add: tokenizeString_def Let_def)
  qed
  show ?thesis
  proof (cases tail)
    case Nil
    with ended show ?thesis by simp
  next
    case (Cons c rest)
    with closed[OF Cons] tk show ?thesis
      by (auto simp: new_json_token_def copyToToken_def)
  qed
qed

theorem tokenizeString_string_witness:
  \<open>tokenizeString (CHR 0x22 # replicate 64 (CHR ''a'') @ [CHR 0x22]) 0 = Inl TokenOverflow \<and>
   tokenizeString (CHR 0x22 # replicate 63 (CHR ''a'') @ [CHR 0x22]) 0 =
     Inr (Token JSON_TOKEN_STRING (replicate 63 (CHR ''a'')), 65) \<and>
   tokenizeString ''{ "ab'' 1 = Inl OutOfBounds \<and>
   tokenizeString (''{ "ab'' @ [CHR 0x00]) 1 = Inr (Token JSON_TOKEN_INVALID [], 5) \<and>
   tokenizeString (''{ "a'' @ [CHR 0x5C] @ ''n":1}'') 1 =
     Inr (Token JSON_TOKEN_STRING (''a'' @ [CHR 0x5C] @ ''n''), 7)\<close>
  using
    tokenizeString_string[of 0 \<open>CHR 0x22 # replicate 64 (CHR ''a'') @ [CHR 0x22]\<close> "[]"
      \<open>replicate 64 (CHR ''a'')\<close> \<open>[CHR 0x22]\<close>]
    tokenizeString_string[of 0 \<open>CHR 0x22 # replicate 63 (CHR ''a'') @ [CHR 0x22]\<close> "[]"
      \<open>replicate 63 (CHR ''a'')\<close> \<open>[CHR 0x22]\<close>]
    tokenizeString_string[of 1 \<open>''{ "ab''\<close> "'' ''" "''ab''" "[]"]
    tokenizeString_string[of 1 \<open>''{ "ab'' @ [CHR 0x00]\<close> "'' ''" "''ab''" "[CHR 0x00]"]
    tokenizeString_string[of 1 \<open>''{ "a'' @ [CHR 0x5C] @ ''n":1}''\<close> "'' ''"
      \<open>''a'' @ [CHR 0x5C] @ ''n''\<close> \<open>CHR 0x22 # '':1}''\<close>]
  by (simp add: isWhiteSpace_def JSON_TOKEN_STRING_SIZE_def)

subsection \<open>C3: parsing and printing again\<close>


text \<open>
  The other memory: the parse of two members reads the \<^verbatim>\<open>Next\<close> of the first member, which
  was never written, when it inserts the second; the parse of one member reads no such field,
  and printing its result does.
\<close>

lemma parseStringToJsonOn_OtherMemory:
  \<open>parseStringToJsonOn 20 OtherMemory textPlatform ''{"a":1,"b":2}'' 13 0 =
     Some (Inl IndeterminateRead) \<and>
   parseStringToJsonOn 20 OtherMemory textPlatform ''{"a":1}'' 7 0 =
     Some (Inr (\<lparr>First = [Member ''a'' (JSON_TYPE_NUMBER ''1'')], IsValid = True\<rparr>, 7)) \<and>
   printJsonObject OtherMemory textPlatform
     \<lparr>First = [Member ''a'' (JSON_TYPE_NUMBER ''1'')], IsValid = True\<rparr> =
     Inl IndeterminateRead\<close>
proof -
  have a: \<open>parseStringToJsonOn 20 OtherMemory textPlatform ''{"a":1,"b":2}'' 13 0 =
     Some (Inl IndeterminateRead)\<close>
    by (simp add: parserOn_eval textPlatform_def del: Suc_numeral cong: parser_cong)
  have b: \<open>parseStringToJsonOn 20 OtherMemory textPlatform ''{"a":1}'' 7 0 =
     Some (Inr (\<lparr>First = [Member ''a'' (JSON_TYPE_NUMBER ''1'')], IsValid = True\<rparr>, 7))\<close>
    by (simp add: parserOn_eval textPlatform_def del: Suc_numeral cong: parser_cong)
  have c: \<open>printJsonObject OtherMemory textPlatform
     \<lparr>First = [Member ''a'' (JSON_TYPE_NUMBER ''1'')], IsValid = True\<rparr> =
     Inl IndeterminateRead\<close>
    by (simp add: printJsonObject_def thenPrint_def textPlatform_def number_eval)
  from a b c show ?thesis by simp
qed




end
